theory Spec2Isabelle
  imports Complex_Main "HOL-Library.Word"
begin

section \<open>JavaScript strings\<close>

text \<open>
  A JavaScript string is a sequence of UTF-16 code units; \<open>length\<close> counts code units,
  as \<^verbatim>\<open>String.prototype.length\<close> does. String literals of the source are written
  \<open>js ''...''\<close>.
\<close>

type_synonym jsstring = "16 word list"

definition js :: "string \<Rightarrow> jsstring" where
  "js s = map of_char s"

text \<open>
  The code units that \<^verbatim>\<open>String.prototype.trim\<close> strips and that \<^verbatim>\<open>\s\<close> matches in a
  regular expression: ECMAScript's WhiteSpace and LineTerminator, all in the Basic
  Multilingual Plane.
\<close>

definition isWhiteSpace :: "16 word \<Rightarrow> bool" where
  "isWhiteSpace c \<longleftrightarrow>
     c \<in> {0x9, 0xA, 0xB, 0xC, 0xD, 0x20, 0xA0, 0x1680, 0x2028, 0x2029, 0x202F, 0x205F,
          0x3000, 0xFEFF}
     \<or> (0x2000 \<le> c \<and> c \<le> 0x200A)"

definition trim :: "jsstring \<Rightarrow> jsstring" where
  "trim s = rev (dropWhile isWhiteSpace (rev (dropWhile isWhiteSpace s)))"

text \<open>
  \<^verbatim>\<open>Buffer.byteLength(s, "utf8")\<close>: one to three bytes for a code unit, four for a
  surrogate pair, three for a lone surrogate (it is encoded as U+FFFD).
\<close>

fun byteLength :: "jsstring \<Rightarrow> nat" where
  "byteLength [] = 0"
| "byteLength [c] = (if c < 0x80 then 1 else if c < 0x800 then 2 else 3)"
| "byteLength (c # d # cs) =
     (if c < 0x80 then 1 + byteLength (d # cs)
      else if c < 0x800 then 2 + byteLength (d # cs)
      else if 0xD800 \<le> c \<and> c \<le> 0xDBFF \<and> 0xDC00 \<le> d \<and> d \<le> 0xDFFF
        then 4 + byteLength cs
      else 3 + byteLength (d # cs))"

text \<open>\<^verbatim>\<open>s.split(sep)\<close> and \<^verbatim>\<open>ws.join(sep)\<close>, for a separator of one code unit.\<close>

fun split :: "16 word \<Rightarrow> jsstring \<Rightarrow> jsstring list" where
  "split sep [] = [[]]"
| "split sep (c # cs) =
     (if c = sep then [] # split sep cs
      else (case split sep cs of w # ws \<Rightarrow> (c # w) # ws | [] \<Rightarrow> [[c]]))"

fun join :: "jsstring \<Rightarrow> jsstring list \<Rightarrow> jsstring" where
  "join sep [] = []"
| "join sep [w] = w"
| "join sep (w # ws) = w @ sep @ join sep ws"

text \<open>\<^verbatim>\<open>s.replace(/\s+/g, " ")\<close>: every maximal run of white space becomes one space.\<close>

function collapse :: "jsstring \<Rightarrow> jsstring" where
  "collapse [] = []"
| "collapse (c # cs) =
     (if isWhiteSpace c then 0x20 # collapse (dropWhile isWhiteSpace cs) else c # collapse cs)"
  by pat_completeness auto
termination
  by (relation "measure length") (auto simp: le_imp_less_Suc length_dropWhile_le)

text \<open>A non-negative integer in a template literal: its decimal digits.\<close>

function decimal :: "nat \<Rightarrow> jsstring" where
  "decimal n =
     (if n < 10 then [0x30 + of_nat n] else decimal (n div 10) @ [0x30 + of_nat (n mod 10)])"
  by pat_completeness auto
termination
  by (relation "measure id") auto

section \<open>The email pattern\<close>

text \<open>
  Regular expressions over code units, with character classes as predicates, and a
  matcher by derivatives. \<^verbatim>\<open>re.test(s)\<close> for a pattern anchored by \<^verbatim>\<open>^\<close> and \<^verbatim>\<open>$\<close>
  (no \<^verbatim>\<open>m\<close>, \<^verbatim>\<open>g\<close> or \<^verbatim>\<open>y\<close> flag) holds when the whole string is in the language
  of the pattern.
\<close>

datatype rexp =
  Zero | One | Class "16 word \<Rightarrow> bool" | Seq rexp rexp | Alt rexp rexp | Star rexp

fun nullable :: "rexp \<Rightarrow> bool" where
  "nullable Zero = False"
| "nullable One = True"
| "nullable (Class p) = False"
| "nullable (Seq r s) = (nullable r \<and> nullable s)"
| "nullable (Alt r s) = (nullable r \<or> nullable s)"
| "nullable (Star r) = True"

fun derive :: "16 word \<Rightarrow> rexp \<Rightarrow> rexp" where
  "derive c Zero = Zero"
| "derive c One = Zero"
| "derive c (Class p) = (if p c then One else Zero)"
| "derive c (Seq r s) =
     (if nullable r then Alt (Seq (derive c r) s) (derive c s) else Seq (derive c r) s)"
| "derive c (Alt r s) = Alt (derive c r) (derive c s)"
| "derive c (Star r) = Seq (derive c r) (Star r)"

fun matches :: "rexp \<Rightarrow> jsstring \<Rightarrow> bool" where
  "matches r [] = nullable r"
| "matches r (c # cs) = matches (derive c r) cs"

text \<open>\<^verbatim>\<open>r+\<close> and \<^verbatim>\<open>r{2,}\<close>\<close>

definition one_or_more :: "rexp \<Rightarrow> rexp" where
  "one_or_more r = Seq r (Star r)"

definition two_or_more :: "rexp \<Rightarrow> rexp" where
  "two_or_more r = Seq r (Seq r (Star r))"

text \<open>\<^verbatim>\<open>[^\s@]\<close>, and a literal character\<close>

definition not_space_at :: "16 word \<Rightarrow> bool" where
  "not_space_at c \<longleftrightarrow> \<not> (isWhiteSpace c \<or> c = 0x40)"

definition lit :: "16 word \<Rightarrow> rexp" where
  "lit a = Class (\<lambda>c. c = a)"

text \<open>
  \<^verbatim>\<open>const emailRegex = /^[^\s@]+@[^\s@]+\.[^\s@]{2,}$/i;\<close>
  The flag \<^verbatim>\<open>i\<close> changes nothing: the pattern names no letter, and no code unit has
  \<^verbatim>\<open>@\<close> or a white-space character as its upper case.
\<close>

definition emailRegex :: rexp where
  "emailRegex =
     Seq (one_or_more (Class not_space_at))
       (Seq (lit 0x40)
         (Seq (one_or_more (Class not_space_at))
           (Seq (lit 0x2E)
             (two_or_more (Class not_space_at)))))"

definition emailRegex_test :: "jsstring \<Rightarrow> bool" where
  "emailRegex_test s = matches emailRegex s"

text \<open>The languages of regular expressions, to state what the matcher decides.\<close>

inductive_set star :: "'a list set \<Rightarrow> 'a list set" for A :: "'a list set" where
  star_empty: "[] \<in> star A"
| star_step: "u \<in> A \<Longrightarrow> v \<in> star A \<Longrightarrow> u @ v \<in> star A"

definition conc :: "'a list set \<Rightarrow> 'a list set \<Rightarrow> 'a list set" where
  "conc A B = {u @ v | u v. u \<in> A \<and> v \<in> B}"

fun lang :: "rexp \<Rightarrow> jsstring set" where
  "lang Zero = {}"
| "lang One = {[]}"
| "lang (Class p) = {[c] | c. p c}"
| "lang (Seq r s) = conc (lang r) (lang s)"
| "lang (Alt r s) = lang r \<union> lang s"
| "lang (Star r) = star (lang r)"

text \<open>
  The format in the words of the specification: a non-empty local part, an \<^verbatim>\<open>@\<close>, a
  non-empty domain, a dot and a suffix of at least two characters, each part free of
  white space and of \<^verbatim>\<open>@\<close>.
\<close>

definition email_format :: "jsstring \<Rightarrow> bool" where
  "email_format s \<longleftrightarrow>
     (\<exists>local domain suffix.
        s = local @ [0x40] @ domain @ [0x2E] @ suffix \<and>
        local \<noteq> [] \<and> domain \<noteq> [] \<and> 2 \<le> length suffix \<and>
        (\<forall>c \<in> set local \<union> set domain \<union> set suffix. \<not> isWhiteSpace c \<and> c \<noteq> 0x40))"

section \<open>Sliding-window rate limiter\<close>

text \<open>
  \<^verbatim>\<open>const RATE_WINDOW_MS = 15 * 60 * 1000; const RATE_MAX_REQUESTS = 5;\<close>
  \<^verbatim>\<open>const requestBuckets = new Map();\<close>
  The map is module state; the model passes it in and returns it updated. \<^verbatim>\<open>Date.now()\<close>
  is an integer number of milliseconds and is an argument of the model.
\<close>

definition RATE_WINDOW_MS :: int where
  "RATE_WINDOW_MS = 15 * 60 * 1000"

definition RATE_MAX_REQUESTS :: nat where
  "RATE_MAX_REQUESTS = 5"

type_synonym buckets = "jsstring \<rightharpoonup> int list"

text \<open>\<^verbatim>\<open>requestBuckets.get(ip) || []\<close>\<close>

definition bucket :: "buckets \<Rightarrow> jsstring \<Rightarrow> int list" where
  "bucket requestBuckets ip = (case requestBuckets ip of None \<Rightarrow> [] | Some ts \<Rightarrow> ts)"

definition isRateLimited :: "int \<Rightarrow> jsstring \<Rightarrow> buckets \<Rightarrow> bool \<times> buckets" where
  "isRateLimited now ip requestBuckets =
     (let current = bucket requestBuckets ip;
          withinWindow = filter (\<lambda>timestamp. now - timestamp < RATE_WINDOW_MS) current @ [now]
      in (length withinWindow > RATE_MAX_REQUESTS, requestBuckets(ip \<mapsto> withinWindow)))"

text \<open>
  A history of checks: each entry is the clock reading and the client identifier of one
  call of \<open>isRateLimited\<close>, oldest first, applied to the module state.
\<close>

fun checks :: "(int \<times> jsstring) list \<Rightarrow> buckets \<Rightarrow> buckets" where
  "checks [] m = m"
| "checks ((now, ip) # cs) m = checks cs (snd (isRateLimited now ip m))"

text \<open>Every stored sequence is sorted and holds no timestamp later than \<open>T\<close>.\<close>

definition bucket_inv :: "int \<Rightarrow> buckets \<Rightarrow> bool" where
  "bucket_inv T m = (\<forall>ip ts. m ip = Some ts \<longrightarrow> sorted ts \<and> (\<forall>t\<in>set ts. t \<le> T))"

section \<open>Values, responses and the runtime\<close>

text \<open>
  What \<^verbatim>\<open>JSON.parse\<close> returns. An object lists its own properties, each key once. The
  value of a number is never inspected, except that zero is falsy.
\<close>

datatype jsvalue =
  JNull | JBool bool | JNum real | JStr jsstring | JArr "jsvalue list"
| JObj "(jsstring \<times> jsvalue) list"

text \<open>
  \<^verbatim>\<open>v.key\<close> for a value \<open>v\<close> that is not \<^verbatim>\<open>null\<close>; \<open>None\<close> is \<^verbatim>\<open>undefined\<close>. The keys
  the program reads (\<^verbatim>\<open>name\<close>, \<^verbatim>\<open>email\<close>, \<^verbatim>\<open>source\<close>, \<^verbatim>\<open>createdAt\<close>, \<^verbatim>\<open>pagePath\<close>,
  \<^verbatim>\<open>userAgent\<close>, \<^verbatim>\<open>company\<close>, \<^verbatim>\<open>message\<close>, \<^verbatim>\<open>error\<close>) are on no prototype, so only an
  object's own properties answer.
\<close>

definition property :: "jsvalue \<Rightarrow> jsstring \<Rightarrow> jsvalue option" where
  "property v key = (case v of JObj kvs \<Rightarrow> map_of kvs key | _ \<Rightarrow> None)"

text \<open>\<^verbatim>\<open>typeof parsed.key === "string" ? parsed.key.trim() : dflt\<close>\<close>

definition string_or :: "jsvalue \<Rightarrow> jsstring \<Rightarrow> jsstring \<Rightarrow> jsstring" where
  "string_or parsed key dflt = (case property parsed key of Some (JStr s) \<Rightarrow> trim s | _ \<Rightarrow> dflt)"

fun truthy :: "jsvalue \<Rightarrow> bool" where
  "truthy JNull = False"
| "truthy (JBool b) = b"
| "truthy (JNum x) = (x \<noteq> 0)"
| "truthy (JStr s) = (s \<noteq> [])"
| "truthy (JArr vs) = True"
| "truthy (JObj kvs) = True"

text \<open>
  A response: for the serverless function the object that \<open>json\<close> returns, for the
  standalone server what \<open>sendJson\<close> writes. \<open>body\<close> holds the payload that the source
  hands to \<^verbatim>\<open>JSON.stringify\<close>; so do the bodies of the CRM requests and the logged lead.
\<close>

record response =
  statusCode :: nat
  headers :: "(jsstring \<times> jsstring) list"
  body :: jsvalue

text \<open>
  Writing a property keeps its place when the key is present and appends it otherwise;
  \<^verbatim>\<open>{...base, ...extra}\<close> writes the properties of \<open>extra\<close> in order.
\<close>

fun assign :: "'k \<Rightarrow> 'v \<Rightarrow> ('k \<times> 'v) list \<Rightarrow> ('k \<times> 'v) list" where
  "assign k v [] = [(k, v)]"
| "assign k v ((k', v') # kvs) = (if k' = k then (k, v) # kvs else (k', v') # assign k v kvs)"

fun spread :: "('k \<times> 'v) list \<Rightarrow> ('k \<times> 'v) list \<Rightarrow> ('k \<times> 'v) list" where
  "spread base [] = base"
| "spread base ((k, v) # extra) = spread (assign k v base) extra"

definition json :: "nat \<Rightarrow> jsvalue \<Rightarrow> (jsstring \<times> jsstring) list \<Rightarrow> response" where
  "json statusCode' payload extraHeaders =
     \<lparr>statusCode = statusCode',
      headers = spread [(js ''Content-Type'', js ''application/json; charset=utf-8''),
                        (js ''Cache-Control'', js ''no-store'')] extraHeaders,
      body = payload\<rparr>"

definition sendJson :: "nat \<Rightarrow> jsvalue \<Rightarrow> (jsstring \<times> jsstring) list \<Rightarrow> response" where
  "sendJson statusCode' payload extraHeaders =
     \<lparr>statusCode = statusCode',
      headers = spread [(js ''Content-Type'', js ''application/json; charset=utf-8''),
                        (js ''Cache-Control'', js ''no-store'')] extraHeaders,
      body = payload\<rparr>"

text \<open>
  A request to the CRM as \<^verbatim>\<open>fetch\<close> receives it, and what \<^verbatim>\<open>fetch\<close> resolves to.
  \<open>response_text\<close> is the result of \<^verbatim>\<open>await response.text()\<close>. A rejected promise or a
  thrown \<^verbatim>\<open>Error\<close> is \<open>Inl\<close> of its message.
\<close>

record crm_request =
  url :: jsstring
  http_method :: jsstring
  request_headers :: "(jsstring \<times> jsstring) list"
  request_body :: jsvalue

record http_response =
  status :: nat
  statusText :: jsstring
  response_text :: "jsstring + jsstring"

definition ok :: "http_response \<Rightarrow> bool" where
  "ok r \<longleftrightarrow> 200 \<le> status r \<and> status r \<le> 299"

text \<open>
  What the runtime and the outside world supply during one request: the environment
  variables, the clock (\<^verbatim>\<open>Date.now()\<close> and the two \<^verbatim>\<open>new Date().toISOString()\<close>), the
  built-in functions whose tables are not part of this program (\<open>None\<close> or \<open>Inl\<close> where
  they throw), and the CRM behind \<^verbatim>\<open>fetch\<close>.
\<close>

record env =
  process_env :: "jsstring \<rightharpoonup> jsstring"
  Date_now :: int
  iso_createdAtClient :: jsstring
  iso_createdAt :: jsstring
  JSON_parse :: "jsstring \<Rightarrow> jsvalue option"
  base64_to_utf8 :: "jsstring \<Rightarrow> jsstring"
  toLowerCase :: "jsstring \<Rightarrow> jsstring"
  encodeURIComponent :: "jsstring \<Rightarrow> jsstring + jsstring"
  ToString :: "jsvalue \<Rightarrow> jsstring + jsstring"
  fetch :: "crm_request \<Rightarrow> jsstring + http_response"

text \<open>\<^verbatim>\<open>console.log\<close>, \<^verbatim>\<open>console.warn\<close>, \<^verbatim>\<open>console.error\<close>: the format and its arguments.\<close>

datatype level = LOG | WARN | ERROR

datatype log_arg = Str jsstring | Json jsvalue

type_synonym log_entry = "level \<times> jsstring \<times> log_arg list"

text \<open>
  What a handler does with one request: the response it returns, or the exception that
  leaves it (only the \<^verbatim>\<open>TypeError\<close> of reading a property of \<^verbatim>\<open>null\<close> can), the rate
  limiter's map, the CRM requests made, in order, and the log lines. \<open>Discarded r\<close> is
  the response \<open>r\<close> that the standalone server writes after \<^verbatim>\<open>req.destroy()\<close>: the socket
  is destroyed by then, and \<open>r\<close> does not reach the client.
\<close>

datatype result = Returned response | Threw | Discarded response

record outcome =
  result :: result
  stored :: buckets
  crm_calls :: "crm_request list"
  console :: "log_entry list"

definition respond :: "buckets \<Rightarrow> response \<Rightarrow> outcome" where
  "respond requestBuckets r =
     \<lparr>result = Returned r, stored = requestBuckets, crm_calls = [], console = []\<rparr>"

text \<open>\<^verbatim>\<open>sendJson\<close> on a request that may have been destroyed\<close>

definition written :: "bool \<Rightarrow> buckets \<Rightarrow> response \<Rightarrow> outcome" where
  "written destroyed' requestBuckets r =
     \<lparr>result = (if destroyed' then Discarded r else Returned r),
      stored = requestBuckets, crm_calls = [], console = []\<rparr>"

definition MAX_BODY_SIZE :: nat where
  "MAX_BODY_SIZE = 16 * 1024"

text \<open>
  \<^verbatim>\<open>try { parsed = rawBody ? JSON.parse(rawBody) : {}; } catch (error) { ... }\<close>:
  \<open>None\<close> when \<^verbatim>\<open>JSON.parse\<close> throws.
\<close>

definition parsed_body :: "env \<Rightarrow> jsstring \<Rightarrow> jsvalue option" where
  "parsed_body env rawBody = (if rawBody \<noteq> [] then JSON_parse env rawBody else Some (JObj []))"

section \<open>Forwarding a lead to HubSpot\<close>

text \<open>
  \<^verbatim>\<open>(process.env.HUBSPOT_API_BASE || "https://api.hubapi.com").replace(/\/+$/, "")\<close> and
  \<^verbatim>\<open>(process.env.HUBSPOT_ACCESS_TOKEN || "").trim()\<close>
\<close>

definition HUBSPOT_API_BASE :: "env \<Rightarrow> jsstring" where
  "HUBSPOT_API_BASE env =
     (let base = (case process_env env (js ''HUBSPOT_API_BASE'') of
                    None \<Rightarrow> js ''https://api.hubapi.com''
                  | Some v \<Rightarrow> if v = [] then js ''https://api.hubapi.com'' else v)
      in rev (dropWhile (\<lambda>c. c = 0x2F) (rev base)))"

definition HUBSPOT_ACCESS_TOKEN :: "env \<Rightarrow> jsstring" where
  "HUBSPOT_ACCESS_TOKEN env =
     trim (case process_env env (js ''HUBSPOT_ACCESS_TOKEN'') of None \<Rightarrow> [] | Some v \<Rightarrow> v)"

record lead =
  lead_name :: jsstring
  lead_email :: jsstring
  lead_source :: jsstring
  lead_createdAt :: jsstring
  lead_createdAtClient :: jsstring
  lead_pagePath :: jsstring
  lead_userAgent :: jsstring
  lead_ip :: jsstring

text \<open>The lead as an object, in the order of the source's literal.\<close>

definition lead_object :: "lead \<Rightarrow> jsvalue" where
  "lead_object l =
     JObj [(js ''name'', JStr (lead_name l)), (js ''email'', JStr (lead_email l)),
           (js ''source'', JStr (lead_source l)), (js ''createdAt'', JStr (lead_createdAt l)),
           (js ''createdAtClient'', JStr (lead_createdAtClient l)),
           (js ''pagePath'', JStr (lead_pagePath l)), (js ''userAgent'', JStr (lead_userAgent l)),
           (js ''ip'', JStr (lead_ip l))]"

definition splitName :: "jsstring \<Rightarrow> jsstring \<times> jsstring" where
  "splitName name' =
     (let normalized = trim (collapse name')
      in if normalized = [] then ([], [])
         else (case split 0x20 normalized of
                 firstName # rest \<Rightarrow> (firstName, join (js '' '') rest)
               | [] \<Rightarrow> ([], [])))"

text \<open>\<^verbatim>\<open>parsed.key\<close> when it is truthy\<close>

definition truthy_prop :: "jsvalue \<Rightarrow> jsstring \<Rightarrow> jsvalue option" where
  "truthy_prop parsed key =
     (case property parsed key of Some v \<Rightarrow> if truthy v then Some v else None | None \<Rightarrow> None)"

text \<open>
  The value returned is what the template literal of the caller then converts to a
  string. Reading \<^verbatim>\<open>parsed.message\<close> of \<^verbatim>\<open>null\<close> throws inside the \<^verbatim>\<open>try\<close>, like a
  syntax error.
\<close>

definition getHubSpotErrorMessage :: "env \<Rightarrow> http_response \<Rightarrow> jsstring + jsvalue" where
  "getHubSpotErrorMessage env response' =
     (case response_text response' of
        Inl message \<Rightarrow> Inl message
      | Inr raw \<Rightarrow>
          if raw = [] then
            Inr (JStr (trim (decimal (status response') @ js '' '' @ statusText response')))
          else
            (case JSON_parse env raw of
               None \<Rightarrow> Inr (JStr raw)
             | Some JNull \<Rightarrow> Inr (JStr raw)
             | Some parsed \<Rightarrow>
                 (case truthy_prop parsed (js ''message'') of
                    Some m \<Rightarrow> Inr m
                  | None \<Rightarrow>
                      (case truthy_prop parsed (js ''error'') of
                         Some e \<Rightarrow> Inr e
                       | None \<Rightarrow> Inr (JStr raw)))))"

text \<open>\<^verbatim>\<open>${value}\<close> in a template literal\<close>

definition interpolate :: "env \<Rightarrow> jsvalue \<Rightarrow> jsstring + jsstring" where
  "interpolate env v = (case v of JStr s \<Rightarrow> Inr s | _ \<Rightarrow> ToString env v)"

datatype call_result = CallSkipped | Called http_response

text \<open>
  The second component lists the requests handed to \<^verbatim>\<open>fetch\<close>, also when
  \<^verbatim>\<open>fetch\<close> rejects.
\<close>

definition callHubSpot ::
  "env \<Rightarrow> jsstring \<Rightarrow> jsstring \<Rightarrow> jsvalue \<Rightarrow> (jsstring + call_result) \<times> crm_request list" where
  "callHubSpot env path method' body' =
     (if HUBSPOT_ACCESS_TOKEN env = [] then (Inr CallSkipped, [])
      else
        let request = \<lparr>url = HUBSPOT_API_BASE env @ path,
                       http_method = method',
                       request_headers =
                         [(js ''Authorization'', js ''Bearer '' @ HUBSPOT_ACCESS_TOKEN env),
                          (js ''Content-Type'', js ''application/json'')],
                       request_body = body'\<rparr>
        in (case fetch env request of
              Inl message \<Rightarrow> (Inl message, [request])
            | Inr response' \<Rightarrow> (Inr (Called response'), [request])))"

datatype sync_result = Skipped | Synced jsstring

text \<open>\<^verbatim>\<open>throw new Error(`HubSpot ${what} failed (${response.status}): ${errorMessage}`)\<close>\<close>

definition hubspot_failure :: "env \<Rightarrow> jsstring \<Rightarrow> http_response \<Rightarrow> jsstring" where
  "hubspot_failure env what response' =
     (case getHubSpotErrorMessage env response' of
        Inl message \<Rightarrow> message
      | Inr errorMessage \<Rightarrow>
          (case interpolate env errorMessage of
             Inl message \<Rightarrow> message
           | Inr text' \<Rightarrow>
               js ''HubSpot '' @ what @ js '' failed ('' @ decimal (status response') @
               js ''): '' @ text'))"

definition syncLeadToHubSpot ::
  "env \<Rightarrow> lead \<Rightarrow> (jsstring + sync_result) \<times> crm_request list" where
  "syncLeadToHubSpot env lead' =
     (if HUBSPOT_ACCESS_TOKEN env = [] then (Inr Skipped, [])
      else
        let (firstName, lastName) = splitName (lead_name lead');
            properties =
              [(js ''email'', JStr (lead_email lead')), (js ''firstname'', JStr firstName)] @
              (if lastName \<noteq> [] then [(js ''lastname'', JStr lastName)] else [])
        in (case encodeURIComponent env (lead_email lead') of
              Inl message \<Rightarrow> (Inl message, [])
            | Inr encoded \<Rightarrow>
                (case callHubSpot env
                        (js ''/crm/v3/objects/contacts/'' @ encoded @ js ''?idProperty=email'')
                        (js ''PATCH'') (JObj [(js ''properties'', JObj properties)]) of
                   (Inl message, calls) \<Rightarrow> (Inl message, calls)
                 | (Inr CallSkipped, calls) \<Rightarrow> (Inr Skipped, calls)
                 | (Inr (Called patchResponse), calls) \<Rightarrow>
                     if ok patchResponse then (Inr (Synced (js ''updated'')), calls)
                     else if status patchResponse \<noteq> 404 then
                       (Inl (hubspot_failure env (js ''update'') patchResponse), calls)
                     else
                       (case callHubSpot env (js ''/crm/v3/objects/contacts'') (js ''POST'')
                               (JObj [(js ''properties'', JObj properties)]) of
                          (Inl message, calls') \<Rightarrow> (Inl message, calls @ calls')
                        | (Inr CallSkipped, calls') \<Rightarrow> (Inr Skipped, calls @ calls')
                        | (Inr (Called createResponse), calls') \<Rightarrow>
                            if ok createResponse
                            then (Inr (Synced (js ''created'')), calls @ calls')
                            else (Inl (hubspot_failure env (js ''create'') createResponse),
                                  calls @ calls')))))"

section \<open>The serverless function\<close>

text \<open>
  The event of one invocation. \<open>event_body\<close> is \<open>None\<close> when \<^verbatim>\<open>event.body\<close> is
  \<^verbatim>\<open>null\<close>; \<open>event_headers\<close> maps a header name to its value.
\<close>

record event =
  httpMethod :: jsstring
  event_headers :: "jsstring \<rightharpoonup> jsstring"
  event_body :: "jsstring option"
  isBase64Encoded :: bool

text \<open>\<^verbatim>\<open>a || b\<close> for two header values\<close>

definition or_else :: "jsstring option \<Rightarrow> jsstring option \<Rightarrow> jsstring option" where
  "or_else a b = (case a of None \<Rightarrow> b | Some s \<Rightarrow> if s = [] then b else Some s)"

text \<open>\<^verbatim>\<open>typeof forwarded === "string" && forwarded.trim()\<close>, then the first entry\<close>

definition first_forwarded :: "jsstring option \<Rightarrow> jsstring option" where
  "first_forwarded forwarded =
     (case forwarded of
        None \<Rightarrow> None
      | Some f \<Rightarrow> if trim f \<noteq> [] then Some (trim (hd (split 0x2C f))) else None)"

definition getClientIp :: "event \<Rightarrow> jsstring" where
  "getClientIp event =
     (case first_forwarded (or_else (event_headers event (js ''x-forwarded-for''))
                                    (event_headers event (js ''X-Forwarded-For''))) of
        Some ip \<Rightarrow> ip
      | None \<Rightarrow> js ''unknown'')"

text \<open>
  \<^verbatim>\<open>event.isBase64Encoded ? Buffer.from(event.body || "", "base64").toString("utf8")\<close>
  \<^verbatim>\<open>: event.body || ""\<close>
\<close>

definition rawBody_of :: "env \<Rightarrow> event \<Rightarrow> jsstring" where
  "rawBody_of env event =
     (let body' = (case event_body event of None \<Rightarrow> [] | Some b \<Rightarrow> b)
      in if isBase64Encoded event then base64_to_utf8 env body' else body')"

text \<open>
  The function with the HubSpot forward. \<open>handler_parsed\<close> is the part of \<open>handler\<close>
  that follows the parsing of the body; the other handlers are split in the same way.
\<close>

definition handler_parsed ::
  "env \<Rightarrow> event \<Rightarrow> jsstring \<Rightarrow> buckets \<Rightarrow> jsvalue \<Rightarrow> outcome" where
  "handler_parsed env event ip requestBuckets parsed =
     (if parsed = JNull then
        \<lparr>result = Threw, stored = requestBuckets, crm_calls = [], console = []\<rparr>
      else
          let name' = string_or parsed (js ''name'') [];
              email = string_or parsed (js ''email'') [];
              source = string_or parsed (js ''source'') (js ''promo-email'');
              createdAtClient = string_or parsed (js ''createdAt'') (iso_createdAtClient env);
              pagePath = string_or parsed (js ''pagePath'') (js ''/promo-email/'');
              userAgent = string_or parsed (js ''userAgent'')
                            (case event_headers event (js ''user-agent'') of None \<Rightarrow> [] | Some h \<Rightarrow> h);
              company = string_or parsed (js ''company'') []
          in if company \<noteq> [] then
               respond requestBuckets (json 200 (JObj [(js ''ok'', JBool True)]) [])
             else if length name' < 2 then
               respond requestBuckets
                 (json 400 (JObj [(js ''ok'', JBool False), (js ''error'', JStr (js ''Please send your name.''))]) [])
             else if \<not> emailRegex_test email then
               respond requestBuckets
                 (json 400 (JObj [(js ''ok'', JBool False), (js ''error'', JStr (js ''Please send a valid email address.''))]) [])
             else
               let lead' = \<lparr>lead_name = name', lead_email = toLowerCase env email,
                     lead_source = (if source = [] then js ''promo-email'' else source),
                     lead_createdAt = iso_createdAt env, lead_createdAtClient = createdAtClient,
                     lead_pagePath = pagePath, lead_userAgent = userAgent,
                     lead_ip = ip\<rparr>;
                   logged = (LOG, js ''[promo-lead] %s'', [Json (lead_object lead')])
               in (case syncLeadToHubSpot env lead' of
                     (Inl message, calls) \<Rightarrow>
                       \<lparr>result = Returned
                          (json 502 (JObj [(js ''ok'', JBool False), (js ''error'', JStr (js ''Unable to save your lead right now. Please try again.''))]) []),
                        stored = requestBuckets, crm_calls = calls,
                        console = [logged, (ERROR, js ''[promo-lead] HubSpot sync error: %s'',
                                            [Str message])]\<rparr>
                   | (Inr hubspotResult, calls) \<Rightarrow>
                       \<lparr>result = Returned (json 200 (JObj [(js ''ok'', JBool True), (js ''coupon'', JStr (js ''BEST10''))]) []),
                        stored = requestBuckets, crm_calls = calls,
                        console =
                          [logged,
                           (case hubspotResult of
                              Skipped \<Rightarrow>
                                (WARN, js ''[promo-lead] HubSpot sync skipped because HUBSPOT_ACCESS_TOKEN is not configured.'', [])
                            | Synced action \<Rightarrow>
                                (LOG, js ''[promo-lead] HubSpot contact %s.'', [Str action]))]\<rparr>))"

definition handler :: "env \<Rightarrow> event \<Rightarrow> buckets \<Rightarrow> outcome" where
  "handler env event requestBuckets =
     (if httpMethod event = js ''OPTIONS'' then
        respond requestBuckets (json 204 (JObj []) [(js ''Allow'', js ''POST, OPTIONS'')])
      else if httpMethod event \<noteq> js ''POST'' then
        respond requestBuckets
          (json 405 (JObj [(js ''ok'', JBool False), (js ''error'', JStr (js ''Method not allowed.''))]) [(js ''Allow'', js ''POST'')])
      else
        let rawBody = rawBody_of env event
        in if byteLength rawBody > MAX_BODY_SIZE then
             respond requestBuckets
               (json 413 (JObj [(js ''ok'', JBool False), (js ''error'', JStr (js ''Payload too large.''))]) [])
           else
             let ip = getClientIp event;
                 (limited, requestBuckets') = isRateLimited (Date_now env) ip requestBuckets
             in if limited then
                  respond requestBuckets'
                    (json 429 (JObj [(js ''ok'', JBool False), (js ''error'', JStr (js ''Too many requests. Try again later.''))]) [])
                else
                  (case parsed_body env rawBody of
                     None \<Rightarrow>
                       respond requestBuckets'
                         (json 400 (JObj [(js ''ok'', JBool False), (js ''error'', JStr (js ''Invalid request body.''))]) [])
                   | Some parsed \<Rightarrow> handler_parsed env event ip requestBuckets' parsed))"

text \<open>
  \<^verbatim>\<open>netlify/functions/promo-lead.js\<close>: no name is collected and nothing is forwarded.
\<close>

definition promo_lead_parsed ::
  "env \<Rightarrow> event \<Rightarrow> jsstring \<Rightarrow> buckets \<Rightarrow> jsvalue \<Rightarrow> outcome" where
  "promo_lead_parsed env event ip requestBuckets parsed =
     (if parsed = JNull then
        \<lparr>result = Threw, stored = requestBuckets, crm_calls = [], console = []\<rparr>
      else
          let email = string_or parsed (js ''email'') [];
              source = string_or parsed (js ''source'') (js ''promo-email'');
              createdAtClient = string_or parsed (js ''createdAt'') (iso_createdAtClient env);
              pagePath = string_or parsed (js ''pagePath'') (js ''/promo-email/'');
              userAgent = string_or parsed (js ''userAgent'')
                            (case event_headers event (js ''user-agent'') of None \<Rightarrow> [] | Some h \<Rightarrow> h);
              company = string_or parsed (js ''company'') []
          in if company \<noteq> [] then
               respond requestBuckets (json 200 (JObj [(js ''ok'', JBool True)]) [])
             else if \<not> emailRegex_test email then
               respond requestBuckets
                 (json 400 (JObj [(js ''ok'', JBool False), (js ''error'', JStr (js ''Please send a valid email address.''))]) [])
             else
               let lead' = JObj [(js ''email'', JStr (toLowerCase env email)),
                                 (js ''source'', JStr (if source = [] then js ''promo-email'' else source)),
                                 (js ''createdAt'', JStr (iso_createdAt env)),
                                 (js ''createdAtClient'', JStr createdAtClient),
                                 (js ''pagePath'', JStr pagePath), (js ''userAgent'', JStr userAgent),
                                 (js ''ip'', JStr ip)];
                   logged = (LOG, js ''[promo-lead] %s'', [Json lead'])
               in \<lparr>result = Returned (json 200 (JObj [(js ''ok'', JBool True), (js ''coupon'', JStr (js ''BEST10''))]) []),
                   stored = requestBuckets, crm_calls = [], console = [logged]\<rparr>)"

definition promo_lead_handler :: "env \<Rightarrow> event \<Rightarrow> buckets \<Rightarrow> outcome" where
  "promo_lead_handler env event requestBuckets =
     (if httpMethod event = js ''OPTIONS'' then
        respond requestBuckets (json 204 (JObj []) [(js ''Allow'', js ''POST, OPTIONS'')])
      else if httpMethod event \<noteq> js ''POST'' then
        respond requestBuckets
          (json 405 (JObj [(js ''ok'', JBool False), (js ''error'', JStr (js ''Method not allowed.''))]) [(js ''Allow'', js ''POST'')])
      else
        let rawBody = rawBody_of env event
        in if byteLength rawBody > MAX_BODY_SIZE then
             respond requestBuckets
               (json 413 (JObj [(js ''ok'', JBool False), (js ''error'', JStr (js ''Payload too large.''))]) [])
           else
             let ip = getClientIp event;
                 (limited, requestBuckets') = isRateLimited (Date_now env) ip requestBuckets
             in if limited then
                  respond requestBuckets'
                    (json 429 (JObj [(js ''ok'', JBool False), (js ''error'', JStr (js ''Too many requests. Try again later.''))]) [])
                else
                  (case parsed_body env rawBody of
                     None \<Rightarrow>
                       respond requestBuckets'
                         (json 400 (JObj [(js ''ok'', JBool False), (js ''error'', JStr (js ''Invalid request body.''))]) [])
                   | Some parsed \<Rightarrow> promo_lead_parsed env event ip requestBuckets' parsed))"

section \<open>The standalone server\<close>

text \<open>
  One request to \<^verbatim>\<open>/api/promo-lead\<close>. \<open>chunks\<close> are the \<^verbatim>\<open>data\<close> events of the body
  stream, each as the string that \<^verbatim>\<open>rawBody += chunk\<close> appends; \<open>stream_error\<close> is the
  message of the \<^verbatim>\<open>error\<close> event that follows them, \<open>None\<close> when the stream ends
  with \<^verbatim>\<open>end\<close>. \<open>remoteAddress\<close> is \<^verbatim>\<open>req.socket.remoteAddress\<close> when it is a string.
\<close>

record request =
  req_method :: jsstring
  req_headers :: "jsstring \<rightharpoonup> jsstring"
  remoteAddress :: "jsstring option"
  chunks :: "jsstring list"
  stream_error :: "jsstring option"

definition getClientIp_server :: "request \<Rightarrow> jsstring" where
  "getClientIp_server req =
     (case first_forwarded (req_headers req (js ''x-forwarded-for'')) of
        Some ip \<Rightarrow> ip
      | None \<Rightarrow> (case remoteAddress req of Some socketAddress \<Rightarrow> socketAddress
                 | None \<Rightarrow> js ''unknown''))"

text \<open>
  \<open>parseBody\<close>: the promise settles with the first of: a chunk that takes the body over
  the limit (rejected, and \<^verbatim>\<open>req.destroy()\<close> is called), the end of the stream (resolved),
  an error (rejected). The first component is what the promise settles with, the second
  tells whether \<^verbatim>\<open>req.destroy()\<close> has been called.
\<close>

fun parseBody_data ::
  "jsstring \<Rightarrow> jsstring list \<Rightarrow> jsstring option \<Rightarrow> (jsstring + jsstring) \<times> bool" where
  "parseBody_data rawBody [] None = (Inr rawBody, False)"
| "parseBody_data rawBody [] (Some err) = (Inl err, False)"
| "parseBody_data rawBody (chunk # rest) fin =
     (if byteLength (rawBody @ chunk) > MAX_BODY_SIZE
      then (Inl (js ''PAYLOAD_TOO_LARGE''), True)
      else parseBody_data (rawBody @ chunk) rest fin)"

definition parseBody :: "request \<Rightarrow> jsstring + jsstring" where
  "parseBody req = fst (parseBody_data [] (chunks req) (stream_error req))"

definition destroyed :: "request \<Rightarrow> bool" where
  "destroyed req = snd (parseBody_data [] (chunks req) (stream_error req))"

text \<open>\<^verbatim>\<open>server.js\<close>: a name is collected, nothing is forwarded.\<close>

definition handlePromoLead_parsed ::
  "env \<Rightarrow> request \<Rightarrow> jsstring \<Rightarrow> buckets \<Rightarrow> jsvalue \<Rightarrow> outcome" where
  "handlePromoLead_parsed env req ip requestBuckets parsed =
     (if parsed = JNull then
        \<lparr>result = Threw, stored = requestBuckets, crm_calls = [], console = []\<rparr>
      else
          let name' = string_or parsed (js ''name'') [];
              email = string_or parsed (js ''email'') [];
              source = string_or parsed (js ''source'') (js ''promo-email'');
              createdAtClient = string_or parsed (js ''createdAt'') (iso_createdAtClient env);
              pagePath = string_or parsed (js ''pagePath'') [];
              userAgent = string_or parsed (js ''userAgent'')
                            (case req_headers req (js ''user-agent'') of None \<Rightarrow> [] | Some h \<Rightarrow> h);
              company = string_or parsed (js ''company'') []
          in if company \<noteq> [] then
               respond requestBuckets (sendJson 200 (JObj [(js ''ok'', JBool True)]) [])
             else if length name' < 2 then
               respond requestBuckets
                 (sendJson 400 (JObj [(js ''ok'', JBool False), (js ''error'', JStr (js ''Please send your name.''))]) [])
             else if \<not> emailRegex_test email then
               respond requestBuckets
                 (sendJson 400 (JObj [(js ''ok'', JBool False), (js ''error'', JStr (js ''Please send a valid email address.''))]) [])
             else
               let lead' = \<lparr>lead_name = name', lead_email = toLowerCase env email,
                     lead_source = (if source = [] then js ''promo-email'' else source),
                     lead_createdAt = iso_createdAt env, lead_createdAtClient = createdAtClient,
                     lead_pagePath = (if pagePath = [] then js ''/promo-email/'' else pagePath), lead_userAgent = userAgent,
                     lead_ip = ip\<rparr>;
                   logged = (LOG, js ''[promo-lead] %s'', [Json (lead_object lead')])
               in \<lparr>result = Returned (sendJson 200 (JObj [(js ''ok'', JBool True), (js ''coupon'', JStr (js ''BEST10''))]) []),
                   stored = requestBuckets, crm_calls = [], console = [logged]\<rparr>)"

definition handlePromoLead :: "env \<Rightarrow> request \<Rightarrow> buckets \<Rightarrow> outcome" where
  "handlePromoLead env req requestBuckets =
     (if req_method req = js ''OPTIONS'' then
        respond requestBuckets (sendJson 204 (JObj []) [(js ''Allow'', js ''POST, OPTIONS'')])
      else if req_method req \<noteq> js ''POST'' then
        respond requestBuckets
          (sendJson 405 (JObj [(js ''ok'', JBool False), (js ''error'', JStr (js ''Method not allowed.''))]) [(js ''Allow'', js ''POST'')])
      else
        let ip = getClientIp_server req;
            (limited, requestBuckets') = isRateLimited (Date_now env) ip requestBuckets
        in if limited then
             respond requestBuckets'
               (sendJson 429 (JObj [(js ''ok'', JBool False), (js ''error'', JStr (js ''Too many requests. Try again later.''))]) [])
           else
             (case parseBody req of
                Inl message \<Rightarrow>
                  if message = js ''PAYLOAD_TOO_LARGE'' then
                    written (destroyed req) requestBuckets'
                      (sendJson 413 (JObj [(js ''ok'', JBool False), (js ''error'', JStr (js ''Payload too large.''))]) [])
                  else
                    written (destroyed req) requestBuckets'
                      (sendJson 400 (JObj [(js ''ok'', JBool False), (js ''error'', JStr (js ''Invalid request body.''))]) [])
              | Inr rawBody \<Rightarrow>
                  (case parsed_body env rawBody of
                     None \<Rightarrow>
                       respond requestBuckets'
                         (sendJson 400 (JObj [(js ''ok'', JBool False), (js ''error'', JStr (js ''Invalid request body.''))]) [])
                   | Some parsed \<Rightarrow> handlePromoLead_parsed env req ip requestBuckets' parsed)))"

text \<open>The server with the HubSpot forward.\<close>

definition handlePromoLead_hubspot_parsed ::
  "env \<Rightarrow> request \<Rightarrow> jsstring \<Rightarrow> buckets \<Rightarrow> jsvalue \<Rightarrow> outcome" where
  "handlePromoLead_hubspot_parsed env req ip requestBuckets parsed =
     (if parsed = JNull then
        \<lparr>result = Threw, stored = requestBuckets, crm_calls = [], console = []\<rparr>
      else
          let name' = string_or parsed (js ''name'') [];
              email = string_or parsed (js ''email'') [];
              source = string_or parsed (js ''source'') (js ''promo-email'');
              createdAtClient = string_or parsed (js ''createdAt'') (iso_createdAtClient env);
              pagePath = string_or parsed (js ''pagePath'') [];
              userAgent = string_or parsed (js ''userAgent'')
                            (case req_headers req (js ''user-agent'') of None \<Rightarrow> [] | Some h \<Rightarrow> h);
              company = string_or parsed (js ''company'') []
          in if company \<noteq> [] then
               respond requestBuckets (sendJson 200 (JObj [(js ''ok'', JBool True)]) [])
             else if length name' < 2 then
               respond requestBuckets
                 (sendJson 400 (JObj [(js ''ok'', JBool False), (js ''error'', JStr (js ''Please send your name.''))]) [])
             else if \<not> emailRegex_test email then
               respond requestBuckets
                 (sendJson 400 (JObj [(js ''ok'', JBool False), (js ''error'', JStr (js ''Please send a valid email address.''))]) [])
             else
               let lead' = \<lparr>lead_name = name', lead_email = toLowerCase env email,
                     lead_source = (if source = [] then js ''promo-email'' else source),
                     lead_createdAt = iso_createdAt env, lead_createdAtClient = createdAtClient,
                     lead_pagePath = (if pagePath = [] then js ''/promo-email/'' else pagePath), lead_userAgent = userAgent,
                     lead_ip = ip\<rparr>;
                   logged = (LOG, js ''[promo-lead] %s'', [Json (lead_object lead')])
               in (case syncLeadToHubSpot env lead' of
                     (Inl message, calls) \<Rightarrow>
                       \<lparr>result = Returned
                          (sendJson 502 (JObj [(js ''ok'', JBool False), (js ''error'', JStr (js ''Unable to save your lead right now. Please try again.''))]) []),
                        stored = requestBuckets, crm_calls = calls,
                        console = [logged, (ERROR, js ''[promo-lead] HubSpot sync error: %s'',
                                            [Str message])]\<rparr>
                   | (Inr hubspotResult, calls) \<Rightarrow>
                       \<lparr>result = Returned (sendJson 200 (JObj [(js ''ok'', JBool True), (js ''coupon'', JStr (js ''BEST10''))]) []),
                        stored = requestBuckets, crm_calls = calls,
                        console =
                          [logged,
                           (case hubspotResult of
                              Skipped \<Rightarrow>
                                (WARN, js ''[promo-lead] HubSpot sync skipped because HUBSPOT_ACCESS_TOKEN is not configured.'', [])
                            | Synced action \<Rightarrow>
                                (LOG, js ''[promo-lead] HubSpot contact %s.'', [Str action]))]\<rparr>))"

definition handlePromoLead_hubspot :: "env \<Rightarrow> request \<Rightarrow> buckets \<Rightarrow> outcome" where
  "handlePromoLead_hubspot env req requestBuckets =
     (if req_method req = js ''OPTIONS'' then
        respond requestBuckets (sendJson 204 (JObj []) [(js ''Allow'', js ''POST, OPTIONS'')])
      else if req_method req \<noteq> js ''POST'' then
        respond requestBuckets
          (sendJson 405 (JObj [(js ''ok'', JBool False), (js ''error'', JStr (js ''Method not allowed.''))]) [(js ''Allow'', js ''POST'')])
      else
        let ip = getClientIp_server req;
            (limited, requestBuckets') = isRateLimited (Date_now env) ip requestBuckets
        in if limited then
             respond requestBuckets'
               (sendJson 429 (JObj [(js ''ok'', JBool False), (js ''error'', JStr (js ''Too many requests. Try again later.''))]) [])
           else
             (case parseBody req of
                Inl message \<Rightarrow>
                  if message = js ''PAYLOAD_TOO_LARGE'' then
                    written (destroyed req) requestBuckets'
                      (sendJson 413 (JObj [(js ''ok'', JBool False), (js ''error'', JStr (js ''Payload too large.''))]) [])
                  else
                    written (destroyed req) requestBuckets'
                      (sendJson 400 (JObj [(js ''ok'', JBool False), (js ''error'', JStr (js ''Invalid request body.''))]) [])
              | Inr rawBody \<Rightarrow>
                  (case parsed_body env rawBody of
                     None \<Rightarrow>
                       respond requestBuckets'
                         (sendJson 400 (JObj [(js ''ok'', JBool False), (js ''error'', JStr (js ''Invalid request body.''))]) [])
                   | Some parsed \<Rightarrow> handlePromoLead_hubspot_parsed env req ip requestBuckets' parsed)))"

text \<open>
  The route \<^verbatim>\<open>/api/promo-lead\<close> of \<^verbatim>\<open>http.createServer\<close>, as the response that the
  server writes: an exception that leaves the handler is answered with 500.
\<close>

definition serve_promo_lead :: "outcome \<Rightarrow> response" where
  "serve_promo_lead out =
     (case result out of
        Returned r \<Rightarrow> r
      | Threw \<Rightarrow>
          sendJson 500
            (JObj [(js ''ok'', JBool False), (js ''error'', JStr (js ''Internal server error.''))]) []
      | Discarded r \<Rightarrow> r)"

section \<open>Notions used to state the properties\<close>

abbreviation failure :: "jsstring \<Rightarrow> jsvalue" where
  "failure message \<equiv> JObj [(js ''ok'', JBool False), (js ''error'', JStr message)]"

abbreviation success :: jsvalue where
  "success \<equiv> JObj [(js ''ok'', JBool True)]"

abbreviation success_with_coupon :: jsvalue where
  "success_with_coupon \<equiv> JObj [(js ''ok'', JBool True), (js ''coupon'', JStr (js ''BEST10''))]"

text \<open>
  The response carries \<^verbatim>\<open>Cache-Control: no-store\<close>; so does the response that an outcome
  returns or writes, if any.
\<close>

definition no_store :: "response \<Rightarrow> bool" where
  "no_store r \<longleftrightarrow> map_of (headers r) (js ''Cache-Control'') = Some (js ''no-store'')"

definition uncached :: "outcome \<Rightarrow> bool" where
  "uncached out =
     (case result out of Returned r \<Rightarrow> no_store r | Threw \<Rightarrow> True | Discarded r \<Rightarrow> no_store r)"

text \<open>
  A request to the serverless function that is a \<^verbatim>\<open>POST\<close>, within the size limit and
  not rate limited; and one whose body, besides, parses to the value \<open>parsed\<close>, which is
  not \<^verbatim>\<open>null\<close>.
\<close>

definition passes_checks :: "env \<Rightarrow> event \<Rightarrow> buckets \<Rightarrow> bool" where
  "passes_checks env event st \<longleftrightarrow>
     httpMethod event = js ''POST'' \<and> byteLength (rawBody_of env event) \<le> MAX_BODY_SIZE \<and>
     \<not> fst (isRateLimited (Date_now env) (getClientIp event) st)"

definition parses_to :: "env \<Rightarrow> event \<Rightarrow> buckets \<Rightarrow> jsvalue \<Rightarrow> bool" where
  "parses_to env event st parsed \<longleftrightarrow>
     passes_checks env event st \<and> parsed_body env (rawBody_of env event) = Some parsed \<and>
     parsed \<noteq> JNull"

text \<open>The same for the standalone server, where the body is read after the rate check.\<close>

definition passes_checks_server :: "env \<Rightarrow> request \<Rightarrow> buckets \<Rightarrow> bool" where
  "passes_checks_server env req st \<longleftrightarrow>
     req_method req = js ''POST'' \<and>
     \<not> fst (isRateLimited (Date_now env) (getClientIp_server req) st)"

definition parses_to_server :: "env \<Rightarrow> request \<Rightarrow> buckets \<Rightarrow> jsvalue \<Rightarrow> bool" where
  "parses_to_server env req st parsed \<longleftrightarrow>
     passes_checks_server env req st \<and>
     (case parseBody req of Inl message \<Rightarrow> False
      | Inr rawBody \<Rightarrow> parsed_body env rawBody = Some parsed) \<and>
     parsed \<noteq> JNull"

text \<open>
  A valid lead, for a handler that collects a name: the honeypot is empty, the name has
  at least two code units and the email matches the pattern, each after trimming.
\<close>

definition valid_lead :: "jsvalue \<Rightarrow> bool" where
  "valid_lead parsed \<longleftrightarrow>
     string_or parsed (js ''company'') [] = [] \<and>
     2 \<le> length (string_or parsed (js ''name'') []) \<and>
     emailRegex_test (string_or parsed (js ''email'') [])"

text \<open>
  The name and the email of the lead that a handler builds from the parsed body: both
  trimmed, the email in lower case.
\<close>

definition name_of :: "jsvalue \<Rightarrow> jsstring" where
  "name_of parsed = string_or parsed (js ''name'') []"

definition email_of :: "env \<Rightarrow> jsvalue \<Rightarrow> jsstring" where
  "email_of env parsed = toLowerCase env (string_or parsed (js ''email'') [])"

text \<open>
  The two requests of the forward for a lead with a name and an email, as
  \<open>syncLeadToHubSpot\<close> and \<open>callHubSpot\<close> build them: the partial update, keyed by the
  email as \<^verbatim>\<open>encodeURIComponent\<close> returns it, and the create.
\<close>

definition contact_properties :: "jsstring \<Rightarrow> jsstring \<Rightarrow> jsvalue" where
  "contact_properties name' email =
     JObj [(js ''properties'',
            JObj ([(js ''email'', JStr email),
                   (js ''firstname'', JStr (fst (splitName name')))] @
                  (if snd (splitName name') \<noteq> []
                   then [(js ''lastname'', JStr (snd (splitName name')))] else [])))]"

definition crm_call :: "env \<Rightarrow> jsstring \<Rightarrow> jsstring \<Rightarrow> jsvalue \<Rightarrow> crm_request" where
  "crm_call env path m payload =
     \<lparr>url = HUBSPOT_API_BASE env @ path,
      http_method = m,
      request_headers =
        [(js ''Authorization'', js ''Bearer '' @ HUBSPOT_ACCESS_TOKEN env),
         (js ''Content-Type'', js ''application/json'')],
      request_body = payload\<rparr>"

definition update_request :: "env \<Rightarrow> jsstring \<Rightarrow> jsstring \<Rightarrow> jsstring \<Rightarrow> crm_request" where
  "update_request env name' email encoded =
     crm_call env (js ''/crm/v3/objects/contacts/'' @ encoded @ js ''?idProperty=email'')
       (js ''PATCH'') (contact_properties name' email)"

definition create_request :: "env \<Rightarrow> jsstring \<Rightarrow> jsstring \<Rightarrow> crm_request" where
  "create_request env name' email =
     crm_call env (js ''/crm/v3/objects/contacts'') (js ''POST'') (contact_properties name' email)"

text \<open>The lead that a handler with a name builds from the parsed body.\<close>

definition lead_of :: "env \<Rightarrow> jsstring \<Rightarrow> jsstring \<Rightarrow> jsstring \<Rightarrow> jsvalue \<Rightarrow> lead" where
  "lead_of env ip ua pagePath parsed =
     \<lparr>lead_name = string_or parsed (js ''name'') [],
      lead_email = toLowerCase env (string_or parsed (js ''email'') []),
      lead_source = (if string_or parsed (js ''source'') (js ''promo-email'') = []
                     then js ''promo-email''
                     else string_or parsed (js ''source'') (js ''promo-email'')),
      lead_createdAt = iso_createdAt env,
      lead_createdAtClient = string_or parsed (js ''createdAt'') (iso_createdAtClient env),
      lead_pagePath = pagePath,
      lead_userAgent = string_or parsed (js ''userAgent'') ua,
      lead_ip = ip\<rparr>"

section \<open>Example requests\<close>

text \<open>
  An example runtime. Its built-in functions agree with those of the real runtime on the
  strings that the examples hand to them (bodies that are not encoded, emails in lower
  case, of which \<^verbatim>\<open>encodeURIComponent\<close> refuses the one with a lone surrogate), and are not
  used on others.
\<close>

definition lead_body :: jsstring where
  \<open>lead_body = js ''{"name":"John Smith","email":"a@b.co"}''\<close>

definition bad_email_body :: jsstring where
  \<open>bad_email_body = js ''{"name":"John Smith","email":"not-an-email"}''\<close>

definition blank_company_body :: jsstring where
  \<open>blank_company_body = js ''{"name":"John Smith","email":"a@b.co","company":" "}''\<close>

definition bot_body :: jsstring where
  \<open>bot_body = js ''{"name":"x","email":"bot","company":"Acme"}''\<close>

text \<open>A body whose email starts with the JSON escape of the lone surrogate U+D800.\<close>

definition surrogate_email_body :: jsstring where
  \<open>surrogate_email_body =
     js ''{"name":"John Smith","email":"'' @ [0x5C] @ js ''ud800@b.co"}''\<close>

definition example_parse :: "jsstring \<Rightarrow> jsvalue option" where
  "example_parse s =
     (if s = lead_body then
        Some (JObj [(js ''name'', JStr (js ''John Smith'')), (js ''email'', JStr (js ''a@b.co''))])
      else if s = bad_email_body then
        Some (JObj [(js ''name'', JStr (js ''John Smith'')),
                    (js ''email'', JStr (js ''not-an-email''))])
      else if s = blank_company_body then
        Some (JObj [(js ''name'', JStr (js ''John Smith'')), (js ''email'', JStr (js ''a@b.co'')),
                    (js ''company'', JStr (js '' ''))])
      else if s = bot_body then
        Some (JObj [(js ''name'', JStr (js ''x'')), (js ''email'', JStr (js ''bot'')),
                    (js ''company'', JStr (js ''Acme''))])
      else if s = surrogate_email_body then
        Some (JObj [(js ''name'', JStr (js ''John Smith'')),
                    (js ''email'', JStr (0xD800 # js ''@b.co''))])
      else None)"

definition example_encode :: "jsstring \<Rightarrow> jsstring + jsstring" where
  "example_encode s =
     (if s = js ''a@b.co'' then Inr (js ''a%40b.co'') else Inl (js ''URI malformed''))"

definition example_env :: "(crm_request \<Rightarrow> jsstring + http_response) \<Rightarrow> env" where
  "example_env crm =
     \<lparr>process_env = [js ''HUBSPOT_ACCESS_TOKEN'' \<mapsto> js ''pat-example''],
      Date_now = 1700000000000,
      iso_createdAtClient = js ''2023-11-14T22:13:20.000Z'',
      iso_createdAt = js ''2023-11-14T22:13:20.000Z'',
      JSON_parse = example_parse,
      base64_to_utf8 = (\<lambda>s. s),
      toLowerCase = (\<lambda>s. s),
      encodeURIComponent = example_encode,
      ToString = (\<lambda>v. Inr (js ''[object Object]'')),
      fetch = crm\<rparr>"

text \<open>A CRM that does not know the contact and creates it, and one that fails.\<close>

definition crm_404_then_201 :: "crm_request \<Rightarrow> jsstring + http_response" where
  "crm_404_then_201 rq =
     (if http_method rq = js ''PATCH''
      then Inr \<lparr>status = 404, statusText = js ''Not Found'', response_text = Inr []\<rparr>
      else Inr \<lparr>status = 201, statusText = js ''Created'', response_text = Inr []\<rparr>)"

definition crm_500 :: "crm_request \<Rightarrow> jsstring + http_response" where
  "crm_500 rq =
     Inr \<lparr>status = 500, statusText = js ''Internal Server Error'',
          response_text = Inr (js ''upstream exploded'')\<rparr>"

definition post_event :: "jsstring \<Rightarrow> event" where
  "post_event rawBody =
     \<lparr>httpMethod = js ''POST'',
      event_headers = [js ''x-forwarded-for'' \<mapsto> js ''203.0.113.7''],
      event_body = Some rawBody, isBase64Encoded = False\<rparr>"

definition post_request :: "jsstring list \<Rightarrow> request" where
  "post_request data =
     \<lparr>req_method = js ''POST'',
      req_headers = [js ''x-forwarded-for'' \<mapsto> js ''203.0.113.7''],
      remoteAddress = Some (js ''127.0.0.1''), chunks = data, stream_error = None\<rparr>"

text \<open>
  A body of 16385 bytes in one chunk, and the buckets of a client that has made five
  checks in the five milliseconds before the clock reading of the example runtime.
\<close>

definition big_request :: request where
  "big_request = post_request [replicate 16385 0x61]"

definition busy_buckets :: buckets where
  "busy_buckets =
     [js ''203.0.113.7'' \<mapsto>
        [1699999999995, 1699999999996, 1699999999997, 1699999999998, 1699999999999]]"

section \<open>Properties of the rate limiter\<close>

lemma checks_snoc:
  "checks (cs @ [(now, ip)]) m = snd (isRateLimited now ip (checks cs m))"
  by (induction cs arbitrary: m) auto

lemma bucket_empty [simp]: "bucket Map.empty ip = []"
  by (simp add: bucket_def)

lemma bucket_isRateLimited_same:
  "bucket (snd (isRateLimited now ip m)) ip =
     filter (\<lambda>t. now - t < RATE_WINDOW_MS) (bucket m ip) @ [now]"
  by (simp add: isRateLimited_def bucket_def Let_def)

lemma bucket_isRateLimited_other:
  "ip' \<noteq> ip \<Longrightarrow> bucket (snd (isRateLimited now ip m)) ip' = bucket m ip'"
  by (simp add: isRateLimited_def bucket_def Let_def)

lemma fst_isRateLimited:
  "fst (isRateLimited now ip m) \<longleftrightarrow>
     5 \<le> length (filter (\<lambda>t. now - t < RATE_WINDOW_MS) (bucket m ip))"
  by (auto simp: isRateLimited_def Let_def RATE_MAX_REQUESTS_def)

lemma bucket_inv_empty: "bucket_inv T Map.empty"
  by (simp add: bucket_inv_def)

lemma bucket_inv_step:
  assumes "bucket_inv T0 m" and "T0 \<le> T"
  shows "bucket_inv T (snd (isRateLimited T ip m))"
proof -
  have old: "sorted ts \<and> (\<forall>t\<in>set ts. t \<le> T)" if "m i = Some ts" for i ts
    using assms that unfolding bucket_inv_def by fastforce
  have cur: "sorted (bucket m ip) \<and> (\<forall>t\<in>set (bucket m ip). t \<le> T)"
    using old [of ip] by (cases "m ip") (simp_all add: bucket_def)
  have new: "sorted (filter (\<lambda>t. T - t < RATE_WINDOW_MS) (bucket m ip) @ [T])"
    using cur sorted_wrt_filter [of "(\<le>)" "bucket m ip"] by (auto simp: sorted_append)
  show ?thesis
    unfolding bucket_inv_def isRateLimited_def Let_def
    using old cur new by auto
qed

lemma bucket_inv_mono: "bucket_inv T0 m \<Longrightarrow> T0 \<le> T \<Longrightarrow> bucket_inv T m"
  unfolding bucket_inv_def by fastforce

lemma bucket_inv_history:
  "sorted (map fst cs @ [T]) \<Longrightarrow> bucket_inv T (checks cs Map.empty)"
proof (induction cs arbitrary: T rule: rev_induct)
  case Nil
  show ?case by (simp add: bucket_inv_empty)
next
  case (snoc c cs)
  obtain now ip where c: "c = (now, ip)" by (cases c)
  from snoc.prems have srt: "sorted (map fst cs @ [now])" and le: "now \<le> T"
    by (auto simp: c sorted_append)
  have "bucket_inv now (checks cs Map.empty)"
    using snoc.IH srt .
  then have "bucket_inv now (checks (cs @ [c]) Map.empty)"
    unfolding c checks_snoc by (rule bucket_inv_step) simp
  then show ?case using le by (rule bucket_inv_mono)
qed

text \<open>
  With a non-decreasing clock, the timestamps of a client that a check at time \<open>T\<close> keeps
  are the times of all its earlier checks less than one window before \<open>T\<close>: nothing that
  is still inside the window has been pruned by an earlier check.
\<close>

lemma window_of_history:
  "sorted (map fst cs @ [T]) \<Longrightarrow>
     filter (\<lambda>t. T - t < RATE_WINDOW_MS) (bucket (checks cs Map.empty) ip) =
     map fst (filter (\<lambda>(t, i). i = ip \<and> T - t < RATE_WINDOW_MS) cs)"
proof (induction cs arbitrary: T rule: rev_induct)
  case Nil
  then show ?case by simp
next
  case (snoc c cs)
  obtain now i where c: "c = (now, i)" by (cases c)
  from snoc.prems have srt: "sorted (map fst cs @ [T])" and le: "now \<le> T"
    by (auto simp: c sorted_append)
  have IH: "filter (\<lambda>t. T - t < RATE_WINDOW_MS) (bucket (checks cs Map.empty) ip) =
      map fst (filter (\<lambda>(t, i). i = ip \<and> T - t < RATE_WINDOW_MS) cs)"
    using snoc.IH srt .
  show ?case
  proof (cases "i = ip")
    case False
    then show ?thesis
      using IH by (simp add: c checks_snoc bucket_isRateLimited_other)
  next
    case True
    have "filter (\<lambda>t. T - t < RATE_WINDOW_MS)
            (filter (\<lambda>t. now - t < RATE_WINDOW_MS) (bucket (checks cs Map.empty) ip)) =
          filter (\<lambda>t. T - t < RATE_WINDOW_MS) (bucket (checks cs Map.empty) ip)"
      using le by (auto intro!: filter_cong)
    then show ?thesis
      using IH True by (simp add: c checks_snoc bucket_isRateLimited_same)
  qed
qed

subsection \<open>Claims about the rate limiter\<close>


text \<open>
  Claim C1 (amended). With a non-decreasing clock, a check at time \<open>T\<close> for a client
  identifier is rejected exactly when at least 5 earlier checks for that identifier, the
  rejected ones included, were made less than 15 minutes (900000 ms) before \<open>T\<close>. So
  the 6th check inside the window is rejected, and a later check is accepted once fewer
  than 5 earlier checks are left inside its window.
\<close>

theorem rate_limit_history:
  assumes "sorted (map fst cs @ [T])"
  shows "fst (isRateLimited T ip (checks cs Map.empty)) \<longleftrightarrow>
           5 \<le> length (filter (\<lambda>(t, i). i = ip \<and> T - t < 900000) cs)"
proof -
  have "length (filter (\<lambda>t. T - t < RATE_WINDOW_MS) (bucket (checks cs Map.empty) ip)) =
        length (filter (\<lambda>(t, i). i = ip \<and> T - t < RATE_WINDOW_MS) cs)"
    using window_of_history [OF assms, of ip] by (metis length_map)
  then show ?thesis
    by (simp add: fst_isRateLimited RATE_WINDOW_MS_def)
qed

theorem rate_limit_history_witness:
  "sorted (map fst [(0, js ''10.0.0.1''), (1, js ''10.0.0.1''), (2, js ''10.0.0.1''),
        (3, js ''10.0.0.1''), (4, js ''10.0.0.1'')] @ [900000 :: int]) \<and>
   \<not> fst (isRateLimited 900000 (js ''10.0.0.1'')
       (checks [(0, js ''10.0.0.1''), (1, js ''10.0.0.1''), (2, js ''10.0.0.1''),
        (3, js ''10.0.0.1''), (4, js ''10.0.0.1'')] Map.empty))"
  using rate_limit_history [of "[(0, js ''10.0.0.1''), (1, js ''10.0.0.1''), (2, js ''10.0.0.1''),
        (3, js ''10.0.0.1''), (4, js ''10.0.0.1'')]" 900000 "js ''10.0.0.1''"]
  by simp

text \<open>
  Claim C1 as stated fails: five checks at 0..4 ms, the 6th at 5 ms is rejected and is
  recorded all the same; at 900000 ms the oldest timestamp has left the window, but the
  five timestamps 1..5 are still inside it and the check is rejected.
\<close>

theorem rate_limit_later_check_counterexample:
  "fst (isRateLimited 5 (js ''10.0.0.1'')
       (checks [(0, js ''10.0.0.1''), (1, js ''10.0.0.1''), (2, js ''10.0.0.1''),
        (3, js ''10.0.0.1''), (4, js ''10.0.0.1'')] Map.empty)) \<and>
   \<not> (900000 - 0 < RATE_WINDOW_MS) \<and>
   fst (isRateLimited 900000 (js ''10.0.0.1'')
       (checks [(0, js ''10.0.0.1''), (1, js ''10.0.0.1''), (2, js ''10.0.0.1''),
        (3, js ''10.0.0.1''), (4, js ''10.0.0.1''), (5, js ''10.0.0.1'')] Map.empty))"
  by (simp add: isRateLimited_def bucket_def RATE_WINDOW_MS_def RATE_MAX_REQUESTS_def)

text \<open>
  Claim C7 (amended). A check at time \<open>T\<close> keeps exactly the stored timestamps \<open>t\<close> with
  \<open>T - 900000 < t\<close>, appends \<open>T\<close>, stores the result back and reports limited if and
  only if the stored sequence is then longer than 5. A timestamp exactly one window old
  is dropped; when no stored timestamp is later than \<open>T\<close> the kept ones are those of the
  half-open interval \<open>(T - 900000, T]\<close>.
\<close>

theorem isRateLimited_window:
  assumes "isRateLimited T ip m = (limited, m')"
  shows "m' = m(ip \<mapsto> filter (\<lambda>t. T - 900000 < t) (bucket m ip) @ [T]) \<and>
         (limited \<longleftrightarrow> 5 < length (bucket m' ip)) \<and>
         T - 900000 \<notin> set (bucket m' ip) \<and>
         ((\<forall>t\<in>set (bucket m ip). t \<le> T) \<longrightarrow>
            bucket m' ip = filter (\<lambda>t. t \<in> {T - 900000 <.. T}) (bucket m ip) @ [T])"
proof -
  have eq: "(\<lambda>t. T - t < RATE_WINDOW_MS) = (\<lambda>t. T - 900000 < t)"
    by (auto simp: RATE_WINDOW_MS_def)
  have m': "m' = m(ip \<mapsto> filter (\<lambda>t. T - 900000 < t) (bucket m ip) @ [T])"
    and lim: "limited \<longleftrightarrow> 5 < length (filter (\<lambda>t. T - 900000 < t) (bucket m ip) @ [T])"
    using assms by (auto simp: isRateLimited_def Let_def eq RATE_MAX_REQUESTS_def)
  have b: "bucket m' ip = filter (\<lambda>t. T - 900000 < t) (bucket m ip) @ [T]"
    by (simp add: m' bucket_def)
  have "filter (\<lambda>t. T - 900000 < t) (bucket m ip) = filter (\<lambda>t. t \<in> {T - 900000 <.. T}) (bucket m ip)"
    if "\<forall>t\<in>set (bucket m ip). t \<le> T"
    using that by (auto intro!: filter_cong)
  then show ?thesis
    using m' lim b by auto
qed

theorem isRateLimited_window_witness:
  "isRateLimited 900001 (js ''10.0.0.1'') [js ''10.0.0.1'' \<mapsto> [0, 1, 2, 900000]] =
     (False, [js ''10.0.0.1'' \<mapsto> [2, 900000, 900001]])"
  using isRateLimited_window [of 900001 "js ''10.0.0.1''" "[js ''10.0.0.1'' \<mapsto> [0, 1, 2, 900000]]"
      "fst (isRateLimited 900001 (js ''10.0.0.1'') [js ''10.0.0.1'' \<mapsto> [0, 1, 2, 900000]])"
      "snd (isRateLimited 900001 (js ''10.0.0.1'') [js ''10.0.0.1'' \<mapsto> [0, 1, 2, 900000]])"]
  by (simp add: bucket_def prod_eq_iff)

text \<open>
  Claim C7 as stated fails: the timestamp 0 lies in the closed interval
  \<open>[900000 - window, 900000]\<close> and is not kept by the check at 900000 ms.
\<close>

theorem closed_window_counterexample:
  "(0::int) \<in> {900000 - RATE_WINDOW_MS .. 900000} \<and>
   bucket (snd (isRateLimited 900000 (js ''10.0.0.1'') [js ''10.0.0.1'' \<mapsto> [0]])) (js ''10.0.0.1'')
     = [900000]"
  by (simp add: isRateLimited_def bucket_def RATE_WINDOW_MS_def)

text \<open>
  Claim C10. With a non-decreasing clock, after a check at time \<open>T\<close> for a client
  identifier the sequence stored for it is sorted, ends with \<open>T\<close> and holds only
  timestamps \<open>t\<close> with \<open>T - window < t \<le> T\<close>; the buckets of all other identifiers
  are as before the call.
\<close>

theorem bucket_after_check:
  assumes "sorted (map fst cs @ [T])"
  shows "(\<exists>ts. snd (isRateLimited T ip (checks cs Map.empty)) ip = Some ts \<and> ts \<noteq> [] \<and>
            sorted ts \<and> last ts = T \<and> (\<forall>t\<in>set ts. T - RATE_WINDOW_MS < t \<and> t \<le> T)) \<and>
         (\<forall>ip'. ip' \<noteq> ip \<longrightarrow>
            snd (isRateLimited T ip (checks cs Map.empty)) ip' = checks cs Map.empty ip')"
proof -
  let ?m = "checks cs Map.empty"
  let ?ts = "filter (\<lambda>t. T - t < RATE_WINDOW_MS) (bucket ?m ip) @ [T]"
  have inv: "bucket_inv T (snd (isRateLimited T ip ?m))"
    using bucket_inv_history [OF assms] by (rule bucket_inv_step) simp
  have stored: "snd (isRateLimited T ip ?m) ip = Some ?ts"
    by (simp add: isRateLimited_def Let_def)
  have "sorted ?ts \<and> (\<forall>t\<in>set ?ts. t \<le> T)"
    using inv stored unfolding bucket_inv_def by blast
  moreover have "\<forall>t\<in>set ?ts. T - RATE_WINDOW_MS < t"
    by (auto simp: RATE_WINDOW_MS_def)
  moreover have "\<forall>ip'. ip' \<noteq> ip \<longrightarrow> snd (isRateLimited T ip ?m) ip' = ?m ip'"
    by (simp add: isRateLimited_def Let_def)
  ultimately show ?thesis
    using stored by auto
qed

theorem bucket_after_check_witness:
  "sorted (map fst [(0, js ''10.0.0.1''), (5, js ''10.0.0.2''), (900000, js ''10.0.0.1'')] @ [900007 :: int]) \<and>
   snd (isRateLimited 900007 (js ''10.0.0.1'')
       (checks [(0, js ''10.0.0.1''), (5, js ''10.0.0.2''), (900000, js ''10.0.0.1'')] Map.empty)) (js ''10.0.0.1'')
     = Some [900000, 900007]"
  using bucket_after_check [of "[(0, js ''10.0.0.1''), (5, js ''10.0.0.2''), (900000, js ''10.0.0.1'')]"
      900007 "js ''10.0.0.1''"]
  by (simp add: isRateLimited_def bucket_def RATE_WINDOW_MS_def js_def)


section \<open>Properties of the handlers\<close>

subsection \<open>String literals\<close>

lemma unat_of_char: "unat (of_char c :: 16 word) = (of_char c :: nat)"
proof -
  have "(of_char c :: nat) < 256" by (rule nat_of_char_less_256)
  then have "(of_char c :: nat) < 2 ^ LENGTH(16)" by (simp add: order_less_trans [of _ 256])
  moreover have "(of_char c :: 16 word) = of_nat (of_char c)"
    by (simp add: of_nat_of_char)
  ultimately show ?thesis
    by (simp add: unat_of_nat take_bit_nat_eq_self)
qed

lemma of_char_word_eq_iff: "(of_char c :: 16 word) = of_char d \<longleftrightarrow> c = d"
proof
  assume "(of_char c :: 16 word) = of_char d"
  then have "unat (of_char c :: 16 word) = unat (of_char d :: 16 word)" by simp
  then show "c = d" by (simp add: unat_of_char)
qed simp

lemma js_eq_iff [simp]: "js a = js b \<longleftrightarrow> a = b"
  unfolding js_def by (rule inj_map_eq_map) (simp add: inj_on_def of_char_word_eq_iff)

lemma js_Nil [simp]: "js a = [] \<longleftrightarrow> a = []" "[] = js a \<longleftrightarrow> a = []" "js [] = []"
  by (auto simp: js_def)


lemma map_of_assign: "map_of (assign k v kvs) k' = (if k' = k then Some v else map_of kvs k')"
  by (induction kvs) auto

lemma no_store_json [simp]:
  "no_store (json c p [])" "no_store (json c p [(js ''Allow'', v)])"
  "no_store (sendJson c p [])" "no_store (sendJson c p [(js ''Allow'', v)])"
  by (simp_all add: no_store_def json_def sendJson_def map_of_assign)

lemma uncached_respond [simp]: "uncached (respond st r) = no_store r"
  by (simp add: uncached_def respond_def)

lemma uncached_written [simp]: "uncached (written d st r) = no_store r"
  by (simp add: uncached_def written_def)

lemma uncached_record [simp]:
  "uncached \<lparr>result = Returned r, stored = st, crm_calls = cs, console = ls\<rparr> = no_store r"
  "uncached \<lparr>result = Threw, stored = st, crm_calls = cs, console = ls\<rparr>"
  by (simp_all add: uncached_def)

lemma uncached_if: "uncached a \<Longrightarrow> uncached b \<Longrightarrow> uncached (if c then a else b)"
  by simp

lemma uncached_Let: "(\<And>x. uncached (f x)) \<Longrightarrow> uncached (Let v f)"
  by (simp add: Let_def)

lemma uncached_case_prod: "(\<And>x y. uncached (f x y)) \<Longrightarrow> uncached (case p of (x, y) \<Rightarrow> f x y)"
  by (simp split: prod.split)

lemma uncached_case_sum:
  "(\<And>x. uncached (f x)) \<Longrightarrow> (\<And>y. uncached (g y)) \<Longrightarrow>
     uncached (case s of Inl x \<Rightarrow> f x | Inr y \<Rightarrow> g y)"
  by (simp split: sum.split)

lemma uncached_case_option:
  "uncached a \<Longrightarrow> (\<And>y. uncached (g y)) \<Longrightarrow> uncached (case s of None \<Rightarrow> a | Some y \<Rightarrow> g y)"
  by (simp split: option.split)

lemmas uncached_intros =
  uncached_if uncached_Let uncached_case_prod uncached_case_sum uncached_case_option

lemma uncached_handler_parsed: "uncached (handler_parsed env event ip st parsed)"
  unfolding handler_parsed_def by (intro uncached_intros) simp_all

lemma uncached_handler: "uncached (handler env event st)"
  unfolding handler_def by (intro uncached_intros) (simp_all add: uncached_handler_parsed)

lemma uncached_promo_lead_parsed: "uncached (promo_lead_parsed env event ip st parsed)"
  unfolding promo_lead_parsed_def by (intro uncached_intros) simp_all

lemma uncached_promo_lead_handler: "uncached (promo_lead_handler env event st)"
  unfolding promo_lead_handler_def
  by (intro uncached_intros) (simp_all add: uncached_promo_lead_parsed)

lemma uncached_handlePromoLead_parsed: "uncached (handlePromoLead_parsed env req ip st parsed)"
  unfolding handlePromoLead_parsed_def by (intro uncached_intros) simp_all

lemma uncached_handlePromoLead: "uncached (handlePromoLead env req st)"
  unfolding handlePromoLead_def
  by (intro uncached_intros) (simp_all add: uncached_handlePromoLead_parsed)

lemma uncached_handlePromoLead_hubspot_parsed:
  "uncached (handlePromoLead_hubspot_parsed env req ip st parsed)"
  unfolding handlePromoLead_hubspot_parsed_def by (intro uncached_intros) simp_all

lemma uncached_handlePromoLead_hubspot: "uncached (handlePromoLead_hubspot env req st)"
  unfolding handlePromoLead_hubspot_def
  by (intro uncached_intros) (simp_all add: uncached_handlePromoLead_hubspot_parsed)

lemma no_store_serve: "uncached out \<Longrightarrow> no_store (serve_promo_lead out)"
  by (simp add: serve_promo_lead_def uncached_def split: result.splits)


text \<open>
  Claim C8. Every response of the promo-lead endpoint carries \<^verbatim>\<open>Cache-Control: no-store\<close>:
  whatever each of the four handlers returns, on every branch, and what the standalone
  server answers for the route, the 500 after an exception included.
\<close>
theorem responses_never_cached:
  "(\<forall>r. result (handler env event st) = Returned r \<longrightarrow> no_store r) \<and>
   (\<forall>r. result (promo_lead_handler env event st) = Returned r \<longrightarrow> no_store r) \<and>
   (\<forall>r. result (handlePromoLead env req st) = Returned r \<longrightarrow> no_store r) \<and>
   (\<forall>r. result (handlePromoLead_hubspot env req st) = Returned r \<longrightarrow> no_store r) \<and>
   no_store (serve_promo_lead (handlePromoLead env req st)) \<and>
   no_store (serve_promo_lead (handlePromoLead_hubspot env req st))"
  using uncached_handler [of env event st] uncached_promo_lead_handler [of env event st]
    uncached_handlePromoLead [of env req st] uncached_handlePromoLead_hubspot [of env req st]
  by (auto simp: uncached_def no_store_serve)

lemma split_nonempty: "split sep s \<noteq> []"
  by (induction s) (auto split: list.split)

lemma example_ip [simp]:
  "getClientIp (post_event b) = js ''203.0.113.7''"
  "getClientIp_server (post_request d) = js ''203.0.113.7''"
  by (simp_all add: getClientIp_def getClientIp_server_def post_event_def post_request_def
      or_else_def first_forwarded_def trim_def isWhiteSpace_def js_def)

theorem responses_never_cached_witness:
  "result (handler (example_env crm_500) (post_event []) Map.empty) =
     Returned (json 400 (failure (js ''Please send your name.'')) []) \<and>
   no_store (json 400 (failure (js ''Please send your name.'')) [])"
  using responses_never_cached [of "example_env crm_500" "post_event []" Map.empty]
  by (simp add: handler_def handler_parsed_def Let_def post_event_def rawBody_of_def
      example_env_def MAX_BODY_SIZE_def isRateLimited_def bucket_def RATE_MAX_REQUESTS_def
      parsed_body_def string_or_def property_def respond_def split: prod.split)


subsection \<open>From the checks to the parsed body\<close>

lemma handler_checked:
  assumes "passes_checks env event st"
  shows "handler env event st =
     (case parsed_body env (rawBody_of env event) of
        None \<Rightarrow> respond (snd (isRateLimited (Date_now env) (getClientIp event) st))
                  (json 400 (failure (js ''Invalid request body.'')) [])
      | Some parsed \<Rightarrow>
          handler_parsed env event (getClientIp event)
            (snd (isRateLimited (Date_now env) (getClientIp event) st)) parsed)"
  using assms unfolding passes_checks_def handler_def
  by (simp add: Let_def case_prod_beta)

lemma promo_lead_handler_checked:
  assumes "passes_checks env event st"
  shows "promo_lead_handler env event st =
     (case parsed_body env (rawBody_of env event) of
        None \<Rightarrow> respond (snd (isRateLimited (Date_now env) (getClientIp event) st))
                  (json 400 (failure (js ''Invalid request body.'')) [])
      | Some parsed \<Rightarrow>
          promo_lead_parsed env event (getClientIp event)
            (snd (isRateLimited (Date_now env) (getClientIp event) st)) parsed)"
  using assms unfolding passes_checks_def promo_lead_handler_def
  by (simp add: Let_def case_prod_beta)

lemma handlePromoLead_checked:
  assumes "passes_checks_server env req st" and "parseBody req = Inr rawBody"
  shows "handlePromoLead env req st =
     (case parsed_body env rawBody of
        None \<Rightarrow> respond (snd (isRateLimited (Date_now env) (getClientIp_server req) st))
                  (sendJson 400 (failure (js ''Invalid request body.'')) [])
      | Some parsed \<Rightarrow>
          handlePromoLead_parsed env req (getClientIp_server req)
            (snd (isRateLimited (Date_now env) (getClientIp_server req) st)) parsed)"
  using assms unfolding passes_checks_server_def handlePromoLead_def
  by (simp add: Let_def case_prod_beta)

lemma handlePromoLead_hubspot_checked:
  assumes "passes_checks_server env req st" and "parseBody req = Inr rawBody"
  shows "handlePromoLead_hubspot env req st =
     (case parsed_body env rawBody of
        None \<Rightarrow> respond (snd (isRateLimited (Date_now env) (getClientIp_server req) st))
                  (sendJson 400 (failure (js ''Invalid request body.'')) [])
      | Some parsed \<Rightarrow>
          handlePromoLead_hubspot_parsed env req (getClientIp_server req)
            (snd (isRateLimited (Date_now env) (getClientIp_server req) st)) parsed)"
  using assms unfolding passes_checks_server_def handlePromoLead_hubspot_def
  by (simp add: Let_def case_prod_beta)

lemma handler_parses_to:
  "parses_to env event st parsed \<Longrightarrow>
     handler env event st =
       handler_parsed env event (getClientIp event)
         (snd (isRateLimited (Date_now env) (getClientIp event) st)) parsed"
  by (simp add: parses_to_def handler_checked)

lemma promo_lead_handler_parses_to:
  "parses_to env event st parsed \<Longrightarrow>
     promo_lead_handler env event st =
       promo_lead_parsed env event (getClientIp event)
         (snd (isRateLimited (Date_now env) (getClientIp event) st)) parsed"
  by (simp add: parses_to_def promo_lead_handler_checked)

lemma handlePromoLead_parses_to:
  "parses_to_server env req st parsed \<Longrightarrow>
     handlePromoLead env req st =
       handlePromoLead_parsed env req (getClientIp_server req)
         (snd (isRateLimited (Date_now env) (getClientIp_server req) st)) parsed"
  by (auto simp: parses_to_server_def handlePromoLead_checked split: sum.splits)

lemma handlePromoLead_hubspot_parses_to:
  "parses_to_server env req st parsed \<Longrightarrow>
     handlePromoLead_hubspot env req st =
       handlePromoLead_hubspot_parsed env req (getClientIp_server req)
         (snd (isRateLimited (Date_now env) (getClientIp_server req) st)) parsed"
  by (auto simp: parses_to_server_def handlePromoLead_hubspot_checked split: sum.splits)

subsection \<open>The empty body\<close>

lemma string_or_empty_object [simp]: "string_or (JObj []) key dflt = dflt"
  by (simp add: string_or_def property_def)

lemma emailRegex_test_Nil [simp]: "\<not> emailRegex_test []"
  by (simp add: emailRegex_test_def emailRegex_def one_or_more_def)

lemma parsed_body_Nil [simp]: "parsed_body env [] = Some (JObj [])"
  by (simp add: parsed_body_def)

lemma parsed_empty:
  "handler_parsed env event ip st (JObj []) =
     respond st (json 400 (failure (js ''Please send your name.'')) [])"
  "promo_lead_parsed env event ip st (JObj []) =
     respond st (json 400 (failure (js ''Please send a valid email address.'')) [])"
  "handlePromoLead_parsed env req ip st (JObj []) =
     respond st (sendJson 400 (failure (js ''Please send your name.'')) [])"
  "handlePromoLead_hubspot_parsed env req ip st (JObj []) =
     respond st (sendJson 400 (failure (js ''Please send your name.'')) [])"
  by (simp_all add: handler_parsed_def promo_lead_parsed_def handlePromoLead_parsed_def
      handlePromoLead_hubspot_parsed_def)

text \<open>
  Claim C9. A \<^verbatim>\<open>POST\<close> whose raw body is the empty string and that is not rate limited
  is not answered with "Invalid request body.": the body counts as the empty object and
  fails the validation of the fields, with 400 "Please send your name." where a name is
  collected and 400 "Please send a valid email address." otherwise.
\<close>
theorem empty_body_fails_validation:
  "(httpMethod event = js ''POST'' \<and> rawBody_of env event = [] \<and>
    \<not> fst (isRateLimited (Date_now env) (getClientIp event) st) \<longrightarrow>
      result (handler env event st) =
        Returned (json 400 (failure (js ''Please send your name.'')) []) \<and>
      result (promo_lead_handler env event st) =
        Returned (json 400 (failure (js ''Please send a valid email address.'')) [])) \<and>
   (req_method req = js ''POST'' \<and> parseBody req = Inr [] \<and>
    \<not> fst (isRateLimited (Date_now env) (getClientIp_server req) st) \<longrightarrow>
      result (handlePromoLead env req st) =
        Returned (sendJson 400 (failure (js ''Please send your name.'')) []) \<and>
      result (handlePromoLead_hubspot env req st) =
        Returned (sendJson 400 (failure (js ''Please send your name.'')) []))"
proof (intro conjI impI)
  assume h: "httpMethod event = js ''POST'' \<and> rawBody_of env event = [] \<and>
    \<not> fst (isRateLimited (Date_now env) (getClientIp event) st)"
  then have p: "passes_checks env event st"
    by (simp add: passes_checks_def)
  show "result (handler env event st) =
      Returned (json 400 (failure (js ''Please send your name.'')) [])"
    using h by (simp add: handler_checked [OF p] parsed_empty respond_def)
  show "result (promo_lead_handler env event st) =
      Returned (json 400 (failure (js ''Please send a valid email address.'')) [])"
    using h by (simp add: promo_lead_handler_checked [OF p] parsed_empty respond_def)
next
  assume h: "req_method req = js ''POST'' \<and> parseBody req = Inr [] \<and>
    \<not> fst (isRateLimited (Date_now env) (getClientIp_server req) st)"
  then have p: "passes_checks_server env req st" and b: "parseBody req = Inr []"
    by (simp_all add: passes_checks_server_def)
  show "result (handlePromoLead env req st) =
      Returned (sendJson 400 (failure (js ''Please send your name.'')) [])"
    by (simp add: handlePromoLead_checked [OF p b] parsed_empty respond_def)
  show "result (handlePromoLead_hubspot env req st) =
      Returned (sendJson 400 (failure (js ''Please send your name.'')) [])"
    by (simp add: handlePromoLead_hubspot_checked [OF p b] parsed_empty respond_def)
qed

lemma example_not_limited [simp]:
  "isRateLimited (Date_now (example_env crm)) (js ''203.0.113.7'') Map.empty =
     (False, [js ''203.0.113.7'' \<mapsto> [1700000000000]])"
  by (simp add: isRateLimited_def example_env_def RATE_MAX_REQUESTS_def)

theorem empty_body_fails_validation_witness:
  "result (handler (example_env crm_500) (post_event []) Map.empty) =
     Returned (json 400 (failure (js ''Please send your name.'')) []) \<and>
   result (promo_lead_handler (example_env crm_500) (post_event []) Map.empty) =
     Returned (json 400 (failure (js ''Please send a valid email address.'')) []) \<and>
   result (handlePromoLead (example_env crm_500) (post_request []) Map.empty) =
     Returned (sendJson 400 (failure (js ''Please send your name.'')) []) \<and>
   result (handlePromoLead_hubspot (example_env crm_500) (post_request []) Map.empty) =
     Returned (sendJson 400 (failure (js ''Please send your name.'')) [])"
proof -
  have "httpMethod (post_event []) = js ''POST''"
    "rawBody_of (example_env crm_500) (post_event []) = []"
    "req_method (post_request []) = js ''POST''" "parseBody (post_request []) = Inr []"
    by (simp_all add: post_event_def post_request_def rawBody_of_def parseBody_def)
  then show ?thesis
    using empty_body_fails_validation
      [of "post_event []" "example_env crm_500" Map.empty "post_request []"]
    by simp
qed

subsection \<open>Oversized bodies\<close>

lemma parseBody_data_too_large:
  "byteLength rawBody \<le> MAX_BODY_SIZE \<Longrightarrow>
   MAX_BODY_SIZE < byteLength (rawBody @ concat data) \<Longrightarrow>
     parseBody_data rawBody data fin = (Inl (js ''PAYLOAD_TOO_LARGE''), True)"
proof (induction data arbitrary: rawBody)
  case Nil
  then show ?case by simp
next
  case (Cons chunk data)
  show ?case
  proof (cases "MAX_BODY_SIZE < byteLength (rawBody @ chunk)")
    case True
    then show ?thesis by simp
  next
    case False
    then have "parseBody_data (rawBody @ chunk) data fin = (Inl (js ''PAYLOAD_TOO_LARGE''), True)"
      using Cons.prems(2) by (intro Cons.IH) simp_all
    with False show ?thesis by simp
  qed
qed

lemma parseBody_too_large:
  assumes "MAX_BODY_SIZE < byteLength (concat (chunks req))"
  shows "parseBody req = Inl (js ''PAYLOAD_TOO_LARGE'')" and "destroyed req"
proof -
  have "parseBody_data [] (chunks req) (stream_error req) = (Inl (js ''PAYLOAD_TOO_LARGE''), True)"
    using assms by (intro parseBody_data_too_large) simp_all
  then show "parseBody req = Inl (js ''PAYLOAD_TOO_LARGE'')" and "destroyed req"
    by (simp_all add: parseBody_def destroyed_def)
qed

text \<open>\<^verbatim>\<open>req.destroy()\<close> is called only where the promise is rejected for the size.\<close>

lemma parseBody_data_destroyed:
  "snd (parseBody_data rawBody data fin) \<Longrightarrow>
     fst (parseBody_data rawBody data fin) = Inl (js ''PAYLOAD_TOO_LARGE'')"
  by (induction rawBody data fin rule: parseBody_data.induct) (auto split: if_splits)

lemma resolved_not_destroyed: "parseBody req = Inr rawBody \<Longrightarrow> \<not> destroyed req"
  using parseBody_data_destroyed [of "[]" "chunks req" "stream_error req"]
  by (auto simp: parseBody_def destroyed_def)

lemma byteLength_replicate_ascii: "c < 0x80 \<Longrightarrow> byteLength (replicate n c) = n"
proof (induction n rule: less_induct)
  case (less n)
  show ?case
  proof (cases n)
    case 0
    then show ?thesis by simp
  next
    case (Suc m)
    show ?thesis
    proof (cases m)
      case 0
      with Suc less.prems show ?thesis by simp
    next
      case (Suc k)
      have "byteLength (replicate m c) = m"
        using less.IH [of m] less.prems \<open>n = Suc m\<close> by simp
      with Suc \<open>n = Suc m\<close> less.prems show ?thesis by simp
    qed
  qed
qed

text \<open>
  What the standalone server does with an oversized body: past the rate limiter it calls
  \<^verbatim>\<open>req.destroy()\<close> and then writes the 413 to the destroyed socket.
\<close>

lemma handlePromoLead_oversized:
  assumes "req_method req = js ''POST''" and "MAX_BODY_SIZE < byteLength (concat (chunks req))"
  shows "handlePromoLead env req st =
      (if fst (isRateLimited (Date_now env) (getClientIp_server req) st)
       then respond (snd (isRateLimited (Date_now env) (getClientIp_server req) st))
              (sendJson 429 (failure (js ''Too many requests. Try again later.'')) [])
       else written True (snd (isRateLimited (Date_now env) (getClientIp_server req) st))
              (sendJson 413 (failure (js ''Payload too large.'')) []))"
    and "handlePromoLead_hubspot env req st =
      (if fst (isRateLimited (Date_now env) (getClientIp_server req) st)
       then respond (snd (isRateLimited (Date_now env) (getClientIp_server req) st))
              (sendJson 429 (failure (js ''Too many requests. Try again later.'')) [])
       else written True (snd (isRateLimited (Date_now env) (getClientIp_server req) st))
              (sendJson 413 (failure (js ''Payload too large.'')) []))"
  using assms(1) parseBody_too_large [OF assms(2)]
  by (simp_all add: handlePromoLead_def handlePromoLead_hubspot_def Let_def case_prod_beta)

lemma rawBody_of_JSON_parse [simp]:
  "rawBody_of (env\<lparr>JSON_parse := p\<rparr>) event = rawBody_of env event"
  by (simp add: rawBody_of_def Let_def)

text \<open>
  Claim C5 (amended). A \<^verbatim>\<open>POST\<close> whose body exceeds 16 KiB never reaches the JSON parser:
  the outcome is the same with any other parser \<open>p\<close>. The serverless function rejects it
  with 413 before the rate limiter: the buckets are unchanged and the answer is never 429.
  The standalone server applies the rate limiter before it reads the body: the check is
  recorded, and the answer is 429 if the client is over the limit.
\<close>

theorem oversized_body_rejected:
  "(httpMethod event = js ''POST'' \<and> MAX_BODY_SIZE < byteLength (rawBody_of env event) \<longrightarrow>
      handler env event st = respond st (json 413 (failure (js ''Payload too large.'')) []) \<and>
      promo_lead_handler env event st =
        respond st (json 413 (failure (js ''Payload too large.'')) []) \<and>
      handler (env\<lparr>JSON_parse := p\<rparr>) event st = handler env event st \<and>
      promo_lead_handler (env\<lparr>JSON_parse := p\<rparr>) event st = promo_lead_handler env event st) \<and>
   (req_method req = js ''POST'' \<and> MAX_BODY_SIZE < byteLength (concat (chunks req)) \<longrightarrow>
      stored (handlePromoLead env req st) =
        snd (isRateLimited (Date_now env) (getClientIp_server req) st) \<and>
      stored (handlePromoLead_hubspot env req st) =
        snd (isRateLimited (Date_now env) (getClientIp_server req) st) \<and>
      (fst (isRateLimited (Date_now env) (getClientIp_server req) st) \<longrightarrow>
         result (handlePromoLead env req st) =
           Returned (sendJson 429 (failure (js ''Too many requests. Try again later.'')) []) \<and>
         result (handlePromoLead_hubspot env req st) =
           Returned (sendJson 429 (failure (js ''Too many requests. Try again later.'')) [])) \<and>
      handlePromoLead (env\<lparr>JSON_parse := p\<rparr>) req st = handlePromoLead env req st \<and>
      handlePromoLead_hubspot (env\<lparr>JSON_parse := p\<rparr>) req st =
        handlePromoLead_hubspot env req st)"
proof (intro conjI impI)
  assume h: "httpMethod event = js ''POST'' \<and> MAX_BODY_SIZE < byteLength (rawBody_of env event)"
  have closed: "handler e event st = respond st (json 413 (failure (js ''Payload too large.'')) [])"
    "promo_lead_handler e event st =
       respond st (json 413 (failure (js ''Payload too large.'')) [])"
    if "rawBody_of e event = rawBody_of env event" for e
    using h that by (simp_all add: handler_def promo_lead_handler_def Let_def)
  show "handler env event st = respond st (json 413 (failure (js ''Payload too large.'')) [])"
    and "promo_lead_handler env event st =
        respond st (json 413 (failure (js ''Payload too large.'')) [])"
    by (simp_all add: closed)
  show "handler (env\<lparr>JSON_parse := p\<rparr>) event st = handler env event st"
    and "promo_lead_handler (env\<lparr>JSON_parse := p\<rparr>) event st = promo_lead_handler env event st"
    by (simp_all add: closed)
next
  assume h: "req_method req = js ''POST'' \<and> MAX_BODY_SIZE < byteLength (concat (chunks req))"
  then have m: "req_method req = js ''POST''"
    and l: "MAX_BODY_SIZE < byteLength (concat (chunks req))"
    by simp_all
  note closed = handlePromoLead_oversized [OF m l]
  show "stored (handlePromoLead env req st) =
        snd (isRateLimited (Date_now env) (getClientIp_server req) st)"
    and "stored (handlePromoLead_hubspot env req st) =
        snd (isRateLimited (Date_now env) (getClientIp_server req) st)"
    by (simp_all add: closed respond_def written_def)
  show "handlePromoLead (env\<lparr>JSON_parse := p\<rparr>) req st = handlePromoLead env req st"
    and "handlePromoLead_hubspot (env\<lparr>JSON_parse := p\<rparr>) req st =
        handlePromoLead_hubspot env req st"
    by (simp_all add: closed)
  assume "fst (isRateLimited (Date_now env) (getClientIp_server req) st)"
  then show "result (handlePromoLead env req st) =
           Returned (sendJson 429 (failure (js ''Too many requests. Try again later.'')) [])"
    and "result (handlePromoLead_hubspot env req st) =
           Returned (sendJson 429 (failure (js ''Too many requests. Try again later.'')) [])"
    by (simp_all add: closed respond_def)
qed

lemma big_request_size: "byteLength (concat (chunks big_request)) = 16385"
  by (simp add: big_request_def post_request_def byteLength_replicate_ascii)

lemma big_request_ip [simp]: "getClientIp_server big_request = js ''203.0.113.7''"
  by (simp add: big_request_def)

lemma busy_limited:
  "isRateLimited (Date_now (example_env crm)) (js ''203.0.113.7'') busy_buckets =
     (True, [js ''203.0.113.7'' \<mapsto>
        [1699999999995, 1699999999996, 1699999999997, 1699999999998, 1699999999999,
         1700000000000]])"
  by (simp add: isRateLimited_def example_env_def RATE_MAX_REQUESTS_def RATE_WINDOW_MS_def
      busy_buckets_def bucket_def)

theorem oversized_body_rejected_witness:
  "handler (example_env crm_500) (post_event (replicate 16385 0x61)) busy_buckets =
     respond busy_buckets (json 413 (failure (js ''Payload too large.'')) []) \<and>
   result (handlePromoLead (example_env crm_500) big_request busy_buckets) =
     Returned (sendJson 429 (failure (js ''Too many requests. Try again later.'')) []) \<and>
   stored (handlePromoLead (example_env crm_500) big_request busy_buckets) =
     [js ''203.0.113.7'' \<mapsto>
        [1699999999995, 1699999999996, 1699999999997, 1699999999998, 1699999999999,
         1700000000000]]"
proof -
  have "req_method big_request = js ''POST''"
    "httpMethod (post_event (replicate 16385 0x61)) = js ''POST''"
    "byteLength (rawBody_of (example_env crm_500) (post_event (replicate 16385 0x61))) = 16385"
    by (simp_all add: big_request_def post_request_def post_event_def rawBody_of_def
        byteLength_replicate_ascii)
  then show ?thesis
    using oversized_body_rejected [of "post_event (replicate 16385 0x61)" "example_env crm_500"
        busy_buckets example_parse big_request]
    by (simp add: big_request_size MAX_BODY_SIZE_def busy_limited)
qed

text \<open>
  Claim C5 as stated fails for the standalone server: an oversized body from a client that
  is over the limit is answered with 429, and the check is recorded in its bucket.
\<close>
theorem oversized_body_rate_limited_counterexample:
  "req_method big_request = js ''POST'' \<and>
   MAX_BODY_SIZE < byteLength (concat (chunks big_request)) \<and>
   result (handlePromoLead (example_env crm_500) big_request busy_buckets) =
     Returned (sendJson 429 (failure (js ''Too many requests. Try again later.'')) []) \<and>
   length (bucket busy_buckets (js ''203.0.113.7'')) = 5 \<and>
   length (bucket (stored (handlePromoLead (example_env crm_500) big_request busy_buckets))
             (js ''203.0.113.7'')) = 6"
proof -
  have "req_method big_request = js ''POST''"
    by (simp add: big_request_def post_request_def)
  moreover have "handlePromoLead (example_env crm_500) big_request busy_buckets =
      respond [js ''203.0.113.7'' \<mapsto>
        [1699999999995, 1699999999996, 1699999999997, 1699999999998, 1699999999999,
         1700000000000]]
       (sendJson 429 (failure (js ''Too many requests. Try again later.'')) [])"
    using calculation by (simp add: handlePromoLead_def Let_def busy_limited)
  ultimately show ?thesis
    by (simp add: big_request_size MAX_BODY_SIZE_def respond_def bucket_def busy_buckets_def)
qed

subsection \<open>The honeypot\<close>

lemma string_or_string:
  "property parsed key = Some (JStr s) \<Longrightarrow> string_or parsed key dflt = trim s"
  by (simp add: string_or_def)

lemma honeypot_parsed:
  assumes "parsed \<noteq> JNull" and "string_or parsed (js ''company'') [] \<noteq> []"
  shows "handler_parsed env event ip st parsed = respond st (json 200 success [])"
    and "promo_lead_parsed env event ip st parsed = respond st (json 200 success [])"
    and "handlePromoLead_parsed env req ip st parsed = respond st (sendJson 200 success [])"
    and "handlePromoLead_hubspot_parsed env req ip st parsed =
           respond st (sendJson 200 success [])"
  using assms
  by (simp_all add: handler_parsed_def promo_lead_parsed_def handlePromoLead_parsed_def
      handlePromoLead_hubspot_parsed_def Let_def)

text \<open>
  Claim C4 (amended). When a request passes the method, size and rate checks and its parsed
  body carries a honeypot field \<^verbatim>\<open>company\<close> that is a string and is not empty after
  trimming, the handler returns 200 \<^verbatim>\<open>{ok:true}\<close> without a coupon and makes no CRM
  request, whatever the name and the email are.
\<close>
theorem honeypot_short_circuit:
  "(parses_to env event st parsed \<and>
    property parsed (js ''company'') = Some (JStr company) \<and> trim company \<noteq> [] \<longrightarrow>
      result (handler env event st) = Returned (json 200 success []) \<and>
      crm_calls (handler env event st) = [] \<and>
      result (promo_lead_handler env event st) = Returned (json 200 success []) \<and>
      crm_calls (promo_lead_handler env event st) = []) \<and>
   (parses_to_server env req st parsed \<and>
    property parsed (js ''company'') = Some (JStr company) \<and> trim company \<noteq> [] \<longrightarrow>
      result (handlePromoLead env req st) = Returned (sendJson 200 success []) \<and>
      crm_calls (handlePromoLead env req st) = [] \<and>
      result (handlePromoLead_hubspot env req st) = Returned (sendJson 200 success []) \<and>
      crm_calls (handlePromoLead_hubspot env req st) = [])"
proof (intro conjI impI)
  assume h: "parses_to env event st parsed \<and>
    property parsed (js ''company'') = Some (JStr company) \<and> trim company \<noteq> []"
  then have p: "parses_to env event st parsed" and n: "parsed \<noteq> JNull"
    and c: "string_or parsed (js ''company'') [] \<noteq> []"
    by (simp_all add: parses_to_def string_or_string)
  show "result (handler env event st) = Returned (json 200 success [])"
    and "crm_calls (handler env event st) = []"
    by (simp_all add: handler_parses_to [OF p] honeypot_parsed [OF n c] respond_def)
  show "result (promo_lead_handler env event st) = Returned (json 200 success [])"
    and "crm_calls (promo_lead_handler env event st) = []"
    by (simp_all add: promo_lead_handler_parses_to [OF p] honeypot_parsed [OF n c] respond_def)
next
  assume h: "parses_to_server env req st parsed \<and>
    property parsed (js ''company'') = Some (JStr company) \<and> trim company \<noteq> []"
  then have p: "parses_to_server env req st parsed" and n: "parsed \<noteq> JNull"
    and c: "string_or parsed (js ''company'') [] \<noteq> []"
    by (simp_all add: parses_to_server_def string_or_string)
  show "result (handlePromoLead env req st) = Returned (sendJson 200 success [])"
    and "crm_calls (handlePromoLead env req st) = []"
    by (simp_all add: handlePromoLead_parses_to [OF p] honeypot_parsed [OF n c] respond_def)
  show "result (handlePromoLead_hubspot env req st) = Returned (sendJson 200 success [])"
    and "crm_calls (handlePromoLead_hubspot env req st) = []"
    by (simp_all add: handlePromoLead_hubspot_parses_to [OF p] honeypot_parsed [OF n c]
        respond_def)
qed

lemma byteLength_ascii: "\<forall>c \<in> set s. c < 0x80 \<Longrightarrow> byteLength s = length s"
  by (induction s rule: byteLength.induct) auto

lemma example_bodies_differ:
  "lead_body \<noteq> bad_email_body" "lead_body \<noteq> blank_company_body" "lead_body \<noteq> bot_body"
  "bad_email_body \<noteq> blank_company_body" "bad_email_body \<noteq> bot_body"
  "blank_company_body \<noteq> bot_body"
  "lead_body \<noteq> []" "bad_email_body \<noteq> []" "blank_company_body \<noteq> []" "bot_body \<noteq> []"
  by (simp_all add: lead_body_def bad_email_body_def blank_company_body_def bot_body_def)

lemma example_bodies_small:
  "byteLength lead_body \<le> MAX_BODY_SIZE" "byteLength bad_email_body \<le> MAX_BODY_SIZE"
  "byteLength blank_company_body \<le> MAX_BODY_SIZE" "byteLength bot_body \<le> MAX_BODY_SIZE"
  by (simp_all add: lead_body_def bad_email_body_def blank_company_body_def bot_body_def
      js_def MAX_BODY_SIZE_def)

lemma example_passes_checks:
  "byteLength b \<le> MAX_BODY_SIZE \<Longrightarrow> passes_checks (example_env crm) (post_event b) Map.empty"
  unfolding passes_checks_def
  by (simp add: rawBody_of_def) (simp add: post_event_def)

lemma example_rawBody [simp]: "rawBody_of (example_env crm) (post_event b) = b"
  by (simp add: rawBody_of_def post_event_def)

lemma example_parsed_body:
  "parsed_body (example_env crm) bot_body =
     Some (JObj [(js ''name'', JStr (js ''x'')), (js ''email'', JStr (js ''bot'')),
                 (js ''company'', JStr (js ''Acme''))])"
  "parsed_body (example_env crm) blank_company_body =
     Some (JObj [(js ''name'', JStr (js ''John Smith'')), (js ''email'', JStr (js ''a@b.co'')),
                 (js ''company'', JStr (js '' ''))])"
  "parsed_body (example_env crm) bad_email_body =
     Some (JObj [(js ''name'', JStr (js ''John Smith'')),
                 (js ''email'', JStr (js ''not-an-email''))])"
  "parsed_body (example_env crm) lead_body =
     Some (JObj [(js ''name'', JStr (js ''John Smith'')), (js ''email'', JStr (js ''a@b.co''))])"
  by (simp_all add: parsed_body_def example_env_def example_parse_def example_bodies_differ
      example_bodies_differ [symmetric])

lemma trim_examples [simp]:
  "trim (js ''Acme'') = js ''Acme''" "trim (js '' '') = []" "trim (js ''x'') = js ''x''"
  "trim (js ''bot'') = js ''bot''" "trim (js ''John Smith'') = js ''John Smith''"
  "trim (js ''a@b.co'') = js ''a@b.co''" "trim (js ''not-an-email'') = js ''not-an-email''"
  by (simp_all add: trim_def js_def isWhiteSpace_def)

theorem honeypot_short_circuit_witness:
  "result (handler (example_env crm_404_then_201) (post_event bot_body) Map.empty) =
     Returned (json 200 success []) \<and>
   crm_calls (handler (example_env crm_404_then_201) (post_event bot_body) Map.empty) = []"
proof -
  have "parses_to (example_env crm_404_then_201) (post_event bot_body) Map.empty
     (JObj [(js ''name'', JStr (js ''x'')), (js ''email'', JStr (js ''bot'')),
            (js ''company'', JStr (js ''Acme''))])"
    by (simp add: parses_to_def example_passes_checks example_bodies_small example_parsed_body)
  then show ?thesis
    using honeypot_short_circuit [of "example_env crm_404_then_201" "post_event bot_body"
        Map.empty "JObj [(js ''name'', JStr (js ''x'')), (js ''email'', JStr (js ''bot'')),
            (js ''company'', JStr (js ''Acme''))]" "js ''Acme''"]
    by (simp add: property_def)
qed

subsection \<open>The matcher decides the language of the pattern\<close>

lemma Nil_in_conc [simp]: "[] \<in> conc A B \<longleftrightarrow> [] \<in> A \<and> [] \<in> B"
  by (auto simp: conc_def)

lemma Cons_in_conc:
  "c # w \<in> conc A B \<longleftrightarrow>
     (\<exists>u v. w = u @ v \<and> c # u \<in> A \<and> v \<in> B) \<or> ([] \<in> A \<and> c # w \<in> B)"
proof
  assume "c # w \<in> conc A B"
  then obtain x y where xy: "c # w = x @ y" "x \<in> A" "y \<in> B"
    by (auto simp: conc_def)
  show "(\<exists>u v. w = u @ v \<and> c # u \<in> A \<and> v \<in> B) \<or> ([] \<in> A \<and> c # w \<in> B)"
  proof (cases x)
    case Nil
    with xy show ?thesis by simp
  next
    case (Cons a u)
    with xy have "w = u @ y" "c # u \<in> A" by simp_all
    with xy(3) show ?thesis by blast
  qed
next
  assume "(\<exists>u v. w = u @ v \<and> c # u \<in> A \<and> v \<in> B) \<or> ([] \<in> A \<and> c # w \<in> B)"
  then show "c # w \<in> conc A B"
  proof
    assume "\<exists>u v. w = u @ v \<and> c # u \<in> A \<and> v \<in> B"
    then obtain u v where "w = u @ v" "c # u \<in> A" "v \<in> B" by blast
    then have "c # w = (c # u) @ v \<and> c # u \<in> A \<and> v \<in> B" by simp
    then show ?thesis unfolding conc_def by blast
  next
    assume "[] \<in> A \<and> c # w \<in> B"
    then have "c # w = [] @ (c # w) \<and> [] \<in> A \<and> c # w \<in> B" by simp
    then show ?thesis unfolding conc_def by blast
  qed
qed

lemma star_Cons_split:
  "x \<in> star A \<Longrightarrow> x = c # w \<Longrightarrow> \<exists>u v. w = u @ v \<and> c # u \<in> A \<and> v \<in> star A"
proof (induction arbitrary: w rule: star.induct)
  case star_empty
  then show ?case by simp
next
  case (star_step u v)
  show ?case
  proof (cases u)
    case Nil
    with star_step show ?thesis by simp
  next
    case (Cons a u')
    with star_step.prems have "w = u' @ v" "a = c" by simp_all
    with Cons star_step.hyps show ?thesis by blast
  qed
qed

lemma Cons_in_star:
  "c # w \<in> star A \<longleftrightarrow> (\<exists>u v. w = u @ v \<and> c # u \<in> A \<and> v \<in> star A)"
proof
  assume "c # w \<in> star A"
  then show "\<exists>u v. w = u @ v \<and> c # u \<in> A \<and> v \<in> star A"
    by (rule star_Cons_split) simp
next
  assume "\<exists>u v. w = u @ v \<and> c # u \<in> A \<and> v \<in> star A"
  then obtain u v where "w = u @ v" "c # u \<in> A" "v \<in> star A" by blast
  then show "c # w \<in> star A"
    using star_step [of "c # u" A v] by simp
qed

lemma nullable_lang: "nullable r \<longleftrightarrow> [] \<in> lang r"
  by (induction r) (auto intro: star_empty)

lemma in_conc: "w \<in> conc A B \<longleftrightarrow> (\<exists>u v. w = u @ v \<and> u \<in> A \<and> v \<in> B)"
  by (auto simp: conc_def)

lemma lang_derive: "w \<in> lang (derive c r) \<longleftrightarrow> c # w \<in> lang r"
proof (induction r arbitrary: w)
  case (Seq r s)
  have left: "w \<in> conc (lang (derive c r)) (lang s) \<longleftrightarrow>
      (\<exists>u v. w = u @ v \<and> c # u \<in> lang r \<and> v \<in> lang s)"
    by (simp add: in_conc Seq.IH(1))
  show ?case
  proof (cases "nullable r")
    case True
    then have "w \<in> lang (derive c (Seq r s)) \<longleftrightarrow>
        w \<in> conc (lang (derive c r)) (lang s) \<or> w \<in> lang (derive c s)"
      by simp
    also have "\<dots> \<longleftrightarrow> c # w \<in> conc (lang r) (lang s)"
      using True unfolding left Seq.IH(2) Cons_in_conc nullable_lang by simp
    finally show ?thesis by simp
  next
    case False
    then have "w \<in> lang (derive c (Seq r s)) \<longleftrightarrow> w \<in> conc (lang (derive c r)) (lang s)"
      by simp
    also have "\<dots> \<longleftrightarrow> c # w \<in> conc (lang r) (lang s)"
      using False unfolding left Cons_in_conc nullable_lang by simp
    finally show ?thesis by simp
  qed
next
  case (Star r)
  have "w \<in> lang (derive c (Star r)) \<longleftrightarrow>
      (\<exists>u v. w = u @ v \<and> c # u \<in> lang r \<and> v \<in> star (lang r))"
    by (simp add: in_conc Star.IH)
  then show ?case
    by (simp add: Cons_in_star)
qed auto

lemma matches_lang: "matches r w \<longleftrightarrow> w \<in> lang r"
  by (induction w arbitrary: r) (simp_all add: nullable_lang lang_derive)

lemma star_Class: "w \<in> star {[c] | c. p c} \<longleftrightarrow> (\<forall>c \<in> set w. p c)"
proof
  assume "w \<in> star {[c] | c. p c}"
  then show "\<forall>c \<in> set w. p c"
    by (induction rule: star.induct) auto
next
  assume "\<forall>c \<in> set w. p c"
  then show "w \<in> star {[c] | c. p c}"
  proof (induction w)
    case Nil
    show ?case by (rule star_empty)
  next
    case (Cons a w)
    then have "[a] \<in> {[c] | c. p c}" and "w \<in> star {[c] | c. p c}" by simp_all
    then have "[a] @ w \<in> star {[c] | c. p c}" by (rule star_step)
    then show ?case by simp
  qed
qed

lemma lang_one_or_more: "lang (one_or_more (Class p)) = {w. w \<noteq> [] \<and> (\<forall>c \<in> set w. p c)}"
proof (rule set_eqI)
  fix w
  show "w \<in> lang (one_or_more (Class p)) \<longleftrightarrow> w \<in> {w. w \<noteq> [] \<and> (\<forall>c \<in> set w. p c)}"
    by (cases w) (auto simp: one_or_more_def Cons_in_conc star_Class)
qed

lemma lang_two_or_more: "lang (two_or_more (Class p)) = {w. 2 \<le> length w \<and> (\<forall>c \<in> set w. p c)}"
proof (rule set_eqI)
  fix w
  show "w \<in> lang (two_or_more (Class p)) \<longleftrightarrow> w \<in> {w. 2 \<le> length w \<and> (\<forall>c \<in> set w. p c)}"
  proof (cases w)
    case Nil
    then show ?thesis by (simp add: two_or_more_def)
  next
    case (Cons a v)
    then show ?thesis
      by (cases v) (auto simp: two_or_more_def Cons_in_conc star_Class)
  qed
qed

lemma lang_lit: "lang (lit a) = {[a]}"
  by (auto simp: lit_def)

lemma emailRegex_test_format: "emailRegex_test s \<longleftrightarrow> email_format s"
proof -
  have "s \<in> lang emailRegex \<longleftrightarrow>
     (\<exists>l d t. s = l @ [0x40] @ d @ [0x2E] @ t \<and>
        (l \<noteq> [] \<and> (\<forall>c \<in> set l. not_space_at c)) \<and>
        (d \<noteq> [] \<and> (\<forall>c \<in> set d. not_space_at c)) \<and>
        (2 \<le> length t \<and> (\<forall>c \<in> set t. not_space_at c)))"
    unfolding emailRegex_def lang.simps lang_one_or_more lang_two_or_more lang_lit conc_def
    by blast
  also have "\<dots> \<longleftrightarrow> email_format s"
    unfolding email_format_def not_space_at_def by (simp add: ball_Un) blast
  finally show ?thesis
    by (simp add: emailRegex_test_def matches_lang)
qed

lemma emailRegex_examples:
  "\<not> emailRegex_test (js ''not-an-email'')" "emailRegex_test (js ''a@b.co'')"
  "\<not> emailRegex_test (js ''bot'')"
  by (simp_all add: emailRegex_test_def emailRegex_def one_or_more_def two_or_more_def lit_def
      not_space_at_def isWhiteSpace_def js_def)

subsection \<open>Validation of the email\<close>

lemma email_checked_parsed:
  assumes "parsed \<noteq> JNull" and "string_or parsed (js ''company'') [] = []"
  shows "2 \<le> length (string_or parsed (js ''name'') []) \<Longrightarrow>
           result (handler_parsed env event ip st parsed) =
             Returned (json 400 (failure (js ''Please send a valid email address.'')) []) \<longleftrightarrow>
           \<not> emailRegex_test (string_or parsed (js ''email'') [])"
    and "result (promo_lead_parsed env event ip st parsed) =
             Returned (json 400 (failure (js ''Please send a valid email address.'')) []) \<longleftrightarrow>
           \<not> emailRegex_test (string_or parsed (js ''email'') [])"
    and "2 \<le> length (string_or parsed (js ''name'') []) \<Longrightarrow>
           result (handlePromoLead_parsed env req ip st parsed) =
             Returned (sendJson 400 (failure (js ''Please send a valid email address.'')) []) \<longleftrightarrow>
           \<not> emailRegex_test (string_or parsed (js ''email'') [])"
    and "2 \<le> length (string_or parsed (js ''name'') []) \<Longrightarrow>
           result (handlePromoLead_hubspot_parsed env req ip st parsed) =
             Returned (sendJson 400 (failure (js ''Please send a valid email address.'')) []) \<longleftrightarrow>
           \<not> emailRegex_test (string_or parsed (js ''email'') [])"
  using assms
  by (simp_all add: handler_parsed_def promo_lead_parsed_def handlePromoLead_parsed_def
      handlePromoLead_hubspot_parsed_def Let_def respond_def json_def sendJson_def
      split: prod.split sum.split)

text \<open>
  Claim C6. The email pattern accepts exactly the strings of the format: a non-empty local
  part, an \<^verbatim>\<open>@\<close>, a non-empty domain, a dot and a suffix of at least two characters, all
  free of white space and \<^verbatim>\<open>@\<close>. It rejects \<^verbatim>\<open>not-an-email\<close> and accepts \<^verbatim>\<open>a@b.co\<close>; a
  request that reaches the validation of the email is answered with 400 "Please send a
  valid email address." exactly when its trimmed email is not of the format.
\<close>
theorem email_pattern:
  "(emailRegex_test s \<longleftrightarrow> email_format s) \<and>
   \<not> emailRegex_test (js ''not-an-email'') \<and> emailRegex_test (js ''a@b.co'') \<and>
   (parses_to env event st parsed \<and> string_or parsed (js ''company'') [] = [] \<longrightarrow>
      (2 \<le> length (string_or parsed (js ''name'') []) \<longrightarrow>
         (result (handler env event st) =
            Returned (json 400 (failure (js ''Please send a valid email address.'')) []) \<longleftrightarrow>
          \<not> email_format (string_or parsed (js ''email'') []))) \<and>
      (result (promo_lead_handler env event st) =
         Returned (json 400 (failure (js ''Please send a valid email address.'')) []) \<longleftrightarrow>
       \<not> email_format (string_or parsed (js ''email'') []))) \<and>
   (parses_to_server env req st parsed \<and> string_or parsed (js ''company'') [] = [] \<and>
    2 \<le> length (string_or parsed (js ''name'') []) \<longrightarrow>
      (result (handlePromoLead env req st) =
         Returned (sendJson 400 (failure (js ''Please send a valid email address.'')) []) \<longleftrightarrow>
       \<not> email_format (string_or parsed (js ''email'') [])) \<and>
      (result (handlePromoLead_hubspot env req st) =
         Returned (sendJson 400 (failure (js ''Please send a valid email address.'')) []) \<longleftrightarrow>
       \<not> email_format (string_or parsed (js ''email'') [])))"
proof (intro conjI impI)
  show "emailRegex_test s \<longleftrightarrow> email_format s"
    by (rule emailRegex_test_format)
  show "\<not> emailRegex_test (js ''not-an-email'')" and "emailRegex_test (js ''a@b.co'')"
    by (rule emailRegex_examples)+
next
  assume h: "parses_to env event st parsed \<and> string_or parsed (js ''company'') [] = []"
  then have p: "parses_to env event st parsed" and n: "parsed \<noteq> JNull"
    and c: "string_or parsed (js ''company'') [] = []"
    by (simp_all add: parses_to_def)
  show "result (promo_lead_handler env event st) =
         Returned (json 400 (failure (js ''Please send a valid email address.'')) []) \<longleftrightarrow>
       \<not> email_format (string_or parsed (js ''email'') [])"
    unfolding promo_lead_handler_parses_to [OF p] email_checked_parsed(2) [OF n c]
    by (simp add: emailRegex_test_format)
  assume m: "2 \<le> length (string_or parsed (js ''name'') [])"
  show "result (handler env event st) =
            Returned (json 400 (failure (js ''Please send a valid email address.'')) []) \<longleftrightarrow>
          \<not> email_format (string_or parsed (js ''email'') [])"
    unfolding handler_parses_to [OF p] email_checked_parsed(1) [OF n c m]
    by (simp add: emailRegex_test_format)
next
  assume h: "parses_to_server env req st parsed \<and> string_or parsed (js ''company'') [] = [] \<and>
    2 \<le> length (string_or parsed (js ''name'') [])"
  then have p: "parses_to_server env req st parsed" and n: "parsed \<noteq> JNull"
    and c: "string_or parsed (js ''company'') [] = []"
    and m: "2 \<le> length (string_or parsed (js ''name'') [])"
    by (simp_all add: parses_to_server_def)
  show "result (handlePromoLead env req st) =
         Returned (sendJson 400 (failure (js ''Please send a valid email address.'')) []) \<longleftrightarrow>
       \<not> email_format (string_or parsed (js ''email'') [])"
    unfolding handlePromoLead_parses_to [OF p] email_checked_parsed(3) [OF n c m]
    by (simp add: emailRegex_test_format)
  show "result (handlePromoLead_hubspot env req st) =
         Returned (sendJson 400 (failure (js ''Please send a valid email address.'')) []) \<longleftrightarrow>
       \<not> email_format (string_or parsed (js ''email'') [])"
    unfolding handlePromoLead_hubspot_parses_to [OF p] email_checked_parsed(4) [OF n c m]
    by (simp add: emailRegex_test_format)
qed

lemma example_parses_to:
  "byteLength b \<le> MAX_BODY_SIZE \<Longrightarrow> parsed_body (example_env crm) b = Some parsed \<Longrightarrow>
   parsed \<noteq> JNull \<Longrightarrow> parses_to (example_env crm) (post_event b) Map.empty parsed"
  by (simp add: parses_to_def example_passes_checks)

theorem email_pattern_witness:
  "result (handler (example_env crm_500) (post_event bad_email_body) Map.empty) =
     Returned (json 400 (failure (js ''Please send a valid email address.'')) []) \<and>
   \<not> email_format (js ''not-an-email'') \<and> email_format (js ''a@b.co'')"
proof -
  let ?parsed = "JObj [(js ''name'', JStr (js ''John Smith'')),
                       (js ''email'', JStr (js ''not-an-email''))]"
  have p: "parses_to (example_env crm_500) (post_event bad_email_body) Map.empty ?parsed"
    by (rule example_parses_to) (simp_all add: example_bodies_small example_parsed_body)
  have f: "string_or ?parsed (js ''company'') [] = []"
    "string_or ?parsed (js ''name'') [] = js ''John Smith''"
    "string_or ?parsed (js ''email'') [] = js ''not-an-email''"
    by (simp_all add: string_or_def property_def)
  have l: "2 \<le> length (js ''John Smith'')"
    by (simp add: js_def)
  show ?thesis
    using email_pattern [of "js ''not-an-email''" "example_env crm_500"
        "post_event bad_email_body" Map.empty ?parsed]
      email_pattern [of "js ''a@b.co''"] p f l
    by simp
qed

subsection \<open>The forward to the CRM\<close>

lemma callHubSpot_configured:
  "HUBSPOT_ACCESS_TOKEN env \<noteq> [] \<Longrightarrow>
     callHubSpot env path m payload =
       (case fetch env (crm_call env path m payload) of
          Inl message \<Rightarrow> (Inl message, [crm_call env path m payload])
        | Inr r \<Rightarrow> (Inr (Called r), [crm_call env path m payload]))"
  by (simp add: callHubSpot_def crm_call_def Let_def split: sum.split)

lemma not_ok_404: "status r = 404 \<Longrightarrow> \<not> ok r"
  by (simp add: ok_def)

lemma sync_properties:
  "(case splitName name' of (firstName, lastName) \<Rightarrow>
      f (JObj [(js ''properties'',
          JObj ([(js ''email'', JStr email), (js ''firstname'', JStr firstName)] @
                (if lastName \<noteq> [] then [(js ''lastname'', JStr lastName)] else [])))])) =
   f (contact_properties name' email)"
  by (simp add: contact_properties_def case_prod_beta)

lemma sync_skipped:
  "HUBSPOT_ACCESS_TOKEN env = [] \<Longrightarrow> syncLeadToHubSpot env l = (Inr Skipped, [])"
  by (simp add: syncLeadToHubSpot_def)

lemma sync_not_encoded:
  "HUBSPOT_ACCESS_TOKEN env \<noteq> [] \<Longrightarrow> encodeURIComponent env (lead_email l) = Inl message \<Longrightarrow>
     syncLeadToHubSpot env l = (Inl message, [])"
  by (simp add: syncLeadToHubSpot_def Let_def case_prod_beta)

lemma sync_created:
  assumes "HUBSPOT_ACCESS_TOKEN env \<noteq> []"
    and "encodeURIComponent env (lead_email l) = Inr encoded"
    and "fetch env (update_request env (lead_name l) (lead_email l) encoded) = Inr patchResponse"
    and "status patchResponse = 404"
    and "fetch env (create_request env (lead_name l) (lead_email l)) = Inr createResponse"
    and "ok createResponse"
  shows "syncLeadToHubSpot env l =
     (Inr (Synced (js ''created'')),
      [update_request env (lead_name l) (lead_email l) encoded,
       create_request env (lead_name l) (lead_email l)])"
  using assms not_ok_404 [of patchResponse]
  by (simp add: syncLeadToHubSpot_def Let_def case_prod_beta callHubSpot_configured
      update_request_def create_request_def contact_properties_def)

lemma sync_update_failed:
  assumes "HUBSPOT_ACCESS_TOKEN env \<noteq> []"
    and "encodeURIComponent env (lead_email l) = Inr encoded"
    and "fetch env (update_request env (lead_name l) (lead_email l) encoded) = Inr patchResponse"
    and "\<not> ok patchResponse" and "status patchResponse \<noteq> 404"
  shows "syncLeadToHubSpot env l =
     (Inl (hubspot_failure env (js ''update'') patchResponse),
      [update_request env (lead_name l) (lead_email l) encoded])"
  using assms
  by (simp add: syncLeadToHubSpot_def Let_def case_prod_beta callHubSpot_configured
      update_request_def contact_properties_def)

text \<open>The message of the error that a failed request throws.\<close>

lemma hubspot_failure_raw:
  "response_text r = Inr raw \<Longrightarrow> raw \<noteq> [] \<Longrightarrow> JSON_parse env raw = None \<Longrightarrow>
     hubspot_failure env what r =
       js ''HubSpot '' @ what @ js '' failed ('' @ decimal (status r) @ js ''): '' @ raw"
  by (simp add: hubspot_failure_def getHubSpotErrorMessage_def interpolate_def)

lemma hubspot_failure_message:
  "response_text r = Inr raw \<Longrightarrow> raw \<noteq> [] \<Longrightarrow> JSON_parse env raw = Some answer \<Longrightarrow>
   property answer (js ''message'') = Some (JStr m) \<Longrightarrow> m \<noteq> [] \<Longrightarrow>
     hubspot_failure env what r =
       js ''HubSpot '' @ what @ js '' failed ('' @ decimal (status r) @ js ''): '' @ m"
  by (cases answer)
    (simp_all add: hubspot_failure_def getHubSpotErrorMessage_def interpolate_def
      truthy_prop_def property_def)

lemma hubspot_failure_error:
  "response_text r = Inr raw \<Longrightarrow> raw \<noteq> [] \<Longrightarrow> JSON_parse env raw = Some answer \<Longrightarrow>
   truthy_prop answer (js ''message'') = None \<Longrightarrow>
   property answer (js ''error'') = Some (JStr e) \<Longrightarrow> e \<noteq> [] \<Longrightarrow>
     hubspot_failure env what r =
       js ''HubSpot '' @ what @ js '' failed ('' @ decimal (status r) @ js ''): '' @ e"
  by (cases answer)
    (simp_all add: hubspot_failure_def getHubSpotErrorMessage_def interpolate_def
      truthy_prop_def property_def)

lemma hubspot_failure_empty:
  "response_text r = Inr [] \<Longrightarrow>
     hubspot_failure env what r =
       js ''HubSpot '' @ what @ js '' failed ('' @ decimal (status r) @ js ''): '' @
       trim (decimal (status r) @ js '' '' @ statusText r)"
  by (simp add: hubspot_failure_def getHubSpotErrorMessage_def interpolate_def)

lemma handler_parsed_valid:
  assumes "parsed \<noteq> JNull" and "valid_lead parsed"
  shows "handler_parsed env event ip st parsed =
    (let lead' = lead_of env ip
                   (case event_headers event (js ''user-agent'') of None \<Rightarrow> [] | Some h \<Rightarrow> h)
                   (string_or parsed (js ''pagePath'') (js ''/promo-email/'')) parsed;
         logged = (LOG, js ''[promo-lead] %s'', [Json (lead_object lead')])
     in case syncLeadToHubSpot env lead' of
          (Inl message, calls) \<Rightarrow>
            \<lparr>result = Returned
               (json 502 (failure (js ''Unable to save your lead right now. Please try again.'')) []),
             stored = st, crm_calls = calls,
             console = [logged, (ERROR, js ''[promo-lead] HubSpot sync error: %s'', [Str message])]\<rparr>
        | (Inr hubspotResult, calls) \<Rightarrow>
            \<lparr>result = Returned (json 200 success_with_coupon []),
             stored = st, crm_calls = calls,
             console =
               [logged,
                (case hubspotResult of
                   Skipped \<Rightarrow>
                     (WARN, js ''[promo-lead] HubSpot sync skipped because HUBSPOT_ACCESS_TOKEN is not configured.'', [])
                 | Synced action \<Rightarrow> (LOG, js ''[promo-lead] HubSpot contact %s.'', [Str action]))]\<rparr>)"
  using assms unfolding valid_lead_def handler_parsed_def lead_of_def
  by (simp add: Let_def)

lemma handlePromoLead_hubspot_parsed_valid:
  assumes "parsed \<noteq> JNull" and "valid_lead parsed"
  shows "handlePromoLead_hubspot_parsed env req ip st parsed =
    (let lead' = lead_of env ip
                   (case req_headers req (js ''user-agent'') of None \<Rightarrow> [] | Some h \<Rightarrow> h)
                   (if string_or parsed (js ''pagePath'') [] = [] then js ''/promo-email/''
                    else string_or parsed (js ''pagePath'') []) parsed;
         logged = (LOG, js ''[promo-lead] %s'', [Json (lead_object lead')])
     in case syncLeadToHubSpot env lead' of
          (Inl message, calls) \<Rightarrow>
            \<lparr>result = Returned
               (sendJson 502 (failure (js ''Unable to save your lead right now. Please try again.'')) []),
             stored = st, crm_calls = calls,
             console = [logged, (ERROR, js ''[promo-lead] HubSpot sync error: %s'', [Str message])]\<rparr>
        | (Inr hubspotResult, calls) \<Rightarrow>
            \<lparr>result = Returned (sendJson 200 success_with_coupon []),
             stored = st, crm_calls = calls,
             console =
               [logged,
                (case hubspotResult of
                   Skipped \<Rightarrow>
                     (WARN, js ''[promo-lead] HubSpot sync skipped because HUBSPOT_ACCESS_TOKEN is not configured.'', [])
                 | Synced action \<Rightarrow> (LOG, js ''[promo-lead] HubSpot contact %s.'', [Str action]))]\<rparr>)"
  using assms unfolding valid_lead_def handlePromoLead_hubspot_parsed_def lead_of_def
  by (simp add: Let_def)

lemma lead_of_name [simp]:
  "lead_name (lead_of env ip ua pagePath parsed) = name_of parsed"
  "lead_email (lead_of env ip ua pagePath parsed) = email_of env parsed"
  by (simp_all add: lead_of_def name_of_def email_of_def)

lemma handler_parsed_created:
  assumes "parsed \<noteq> JNull" and "valid_lead parsed" and "HUBSPOT_ACCESS_TOKEN env \<noteq> []"
    and "encodeURIComponent env (email_of env parsed) = Inr encoded"
    and "fetch env (update_request env (name_of parsed) (email_of env parsed) encoded) =
           Inr patchResponse"
    and "status patchResponse = 404"
    and "fetch env (create_request env (name_of parsed) (email_of env parsed)) =
           Inr createResponse"
    and "ok createResponse"
  shows "result (handler_parsed env event ip st parsed) =
           Returned (json 200 success_with_coupon []) \<and>
         crm_calls (handler_parsed env event ip st parsed) =
           [update_request env (name_of parsed) (email_of env parsed) encoded,
            create_request env (name_of parsed) (email_of env parsed)]"
    and "result (handlePromoLead_hubspot_parsed env req ip st parsed) =
           Returned (sendJson 200 success_with_coupon []) \<and>
         crm_calls (handlePromoLead_hubspot_parsed env req ip st parsed) =
           [update_request env (name_of parsed) (email_of env parsed) encoded,
            create_request env (name_of parsed) (email_of env parsed)]"
proof -
  have sync: "syncLeadToHubSpot env (lead_of env ip ua pp parsed) =
     (Inr (Synced (js ''created'')),
      [update_request env (name_of parsed) (email_of env parsed) encoded,
       create_request env (name_of parsed) (email_of env parsed)])" for ua pp
    using sync_created [of env "lead_of env ip ua pp parsed" encoded patchResponse createResponse]
      assms(3-8)
    by simp
  show "result (handler_parsed env event ip st parsed) =
           Returned (json 200 success_with_coupon []) \<and>
         crm_calls (handler_parsed env event ip st parsed) =
           [update_request env (name_of parsed) (email_of env parsed) encoded,
            create_request env (name_of parsed) (email_of env parsed)]"
    unfolding handler_parsed_valid [OF assms(1,2)] Let_def sync by simp
  show "result (handlePromoLead_hubspot_parsed env req ip st parsed) =
           Returned (sendJson 200 success_with_coupon []) \<and>
         crm_calls (handlePromoLead_hubspot_parsed env req ip st parsed) =
           [update_request env (name_of parsed) (email_of env parsed) encoded,
            create_request env (name_of parsed) (email_of env parsed)]"
    unfolding handlePromoLead_hubspot_parsed_valid [OF assms(1,2)] Let_def sync by simp
qed

lemma handler_parsed_update_failed:
  assumes "parsed \<noteq> JNull" and "valid_lead parsed" and "HUBSPOT_ACCESS_TOKEN env \<noteq> []"
    and "encodeURIComponent env (email_of env parsed) = Inr encoded"
    and "fetch env (update_request env (name_of parsed) (email_of env parsed) encoded) =
           Inr patchResponse"
    and "\<not> ok patchResponse" and "status patchResponse \<noteq> 404"
  shows "result (handler_parsed env event ip st parsed) =
           Returned (json 502
             (failure (js ''Unable to save your lead right now. Please try again.'')) []) \<and>
         crm_calls (handler_parsed env event ip st parsed) =
           [update_request env (name_of parsed) (email_of env parsed) encoded] \<and>
         last (console (handler_parsed env event ip st parsed)) =
           (ERROR, js ''[promo-lead] HubSpot sync error: %s'',
            [Str (hubspot_failure env (js ''update'') patchResponse)])"
    and "result (handlePromoLead_hubspot_parsed env req ip st parsed) =
           Returned (sendJson 502
             (failure (js ''Unable to save your lead right now. Please try again.'')) []) \<and>
         crm_calls (handlePromoLead_hubspot_parsed env req ip st parsed) =
           [update_request env (name_of parsed) (email_of env parsed) encoded] \<and>
         last (console (handlePromoLead_hubspot_parsed env req ip st parsed)) =
           (ERROR, js ''[promo-lead] HubSpot sync error: %s'',
            [Str (hubspot_failure env (js ''update'') patchResponse)])"
proof -
  have sync: "syncLeadToHubSpot env (lead_of env ip ua pp parsed) =
     (Inl (hubspot_failure env (js ''update'') patchResponse),
      [update_request env (name_of parsed) (email_of env parsed) encoded])" for ua pp
    using sync_update_failed [of env "lead_of env ip ua pp parsed" encoded patchResponse]
      assms(3-7)
    by simp
  show "result (handler_parsed env event ip st parsed) =
           Returned (json 502
             (failure (js ''Unable to save your lead right now. Please try again.'')) []) \<and>
         crm_calls (handler_parsed env event ip st parsed) =
           [update_request env (name_of parsed) (email_of env parsed) encoded] \<and>
         last (console (handler_parsed env event ip st parsed)) =
           (ERROR, js ''[promo-lead] HubSpot sync error: %s'',
            [Str (hubspot_failure env (js ''update'') patchResponse)])"
    unfolding handler_parsed_valid [OF assms(1,2)] Let_def sync by simp
  show "result (handlePromoLead_hubspot_parsed env req ip st parsed) =
           Returned (sendJson 502
             (failure (js ''Unable to save your lead right now. Please try again.'')) []) \<and>
         crm_calls (handlePromoLead_hubspot_parsed env req ip st parsed) =
           [update_request env (name_of parsed) (email_of env parsed) encoded] \<and>
         last (console (handlePromoLead_hubspot_parsed env req ip st parsed)) =
           (ERROR, js ''[promo-lead] HubSpot sync error: %s'',
            [Str (hubspot_failure env (js ''update'') patchResponse)])"
    unfolding handlePromoLead_hubspot_parsed_valid [OF assms(1,2)] Let_def sync by simp
qed

text \<open>Without a request: the token is not configured, or the email cannot be encoded.\<close>

lemma handler_parsed_not_called:
  assumes "parsed \<noteq> JNull" and "valid_lead parsed"
  shows "HUBSPOT_ACCESS_TOKEN env = [] \<Longrightarrow>
           result (handler_parsed env event ip st parsed) =
             Returned (json 200 success_with_coupon []) \<and>
           crm_calls (handler_parsed env event ip st parsed) = []"
    and "HUBSPOT_ACCESS_TOKEN env \<noteq> [] \<Longrightarrow>
         encodeURIComponent env (email_of env parsed) = Inl message \<Longrightarrow>
           result (handler_parsed env event ip st parsed) =
             Returned (json 502
               (failure (js ''Unable to save your lead right now. Please try again.'')) []) \<and>
           crm_calls (handler_parsed env event ip st parsed) = []"
  unfolding handler_parsed_valid [OF assms] Let_def
  by (simp_all add: sync_skipped sync_not_encoded)

text \<open>
  Claim C2 (amended). For a valid lead, with the access token configured and an email that
  \<^verbatim>\<open>encodeURIComponent\<close> accepts (one without a lone surrogate), when the CRM answers the
  partial update for that email (the \<^verbatim>\<open>PATCH\<close> keyed by the email) with 404 and the create
  (the \<^verbatim>\<open>POST\<close>) with a 2xx status, the handler returns 200 \<^verbatim>\<open>{ok:true, coupon:"BEST10"}\<close>
  and makes exactly two CRM requests, that \<^verbatim>\<open>PATCH\<close> and then that \<^verbatim>\<open>POST\<close>.
\<close>

theorem created_after_not_found:
  "(parses_to env event st parsed \<and> valid_lead parsed \<and> HUBSPOT_ACCESS_TOKEN env \<noteq> [] \<and>
    encodeURIComponent env (email_of env parsed) = Inr encoded \<and>
    fetch env (update_request env (name_of parsed) (email_of env parsed) encoded) =
      Inr patchResponse \<and>
    status patchResponse = 404 \<and>
    fetch env (create_request env (name_of parsed) (email_of env parsed)) =
      Inr createResponse \<and>
    ok createResponse \<longrightarrow>
      result (handler env event st) = Returned (json 200 success_with_coupon []) \<and>
      crm_calls (handler env event st) =
        [update_request env (name_of parsed) (email_of env parsed) encoded,
         create_request env (name_of parsed) (email_of env parsed)]) \<and>
   (parses_to_server env req st parsed \<and> valid_lead parsed \<and> HUBSPOT_ACCESS_TOKEN env \<noteq> [] \<and>
    encodeURIComponent env (email_of env parsed) = Inr encoded \<and>
    fetch env (update_request env (name_of parsed) (email_of env parsed) encoded) =
      Inr patchResponse \<and>
    status patchResponse = 404 \<and>
    fetch env (create_request env (name_of parsed) (email_of env parsed)) =
      Inr createResponse \<and>
    ok createResponse \<longrightarrow>
      result (handlePromoLead_hubspot env req st) = Returned (sendJson 200 success_with_coupon []) \<and>
      crm_calls (handlePromoLead_hubspot env req st) =
        [update_request env (name_of parsed) (email_of env parsed) encoded,
         create_request env (name_of parsed) (email_of env parsed)])"
proof (intro conjI impI)
  assume h: "parses_to env event st parsed \<and> valid_lead parsed \<and> HUBSPOT_ACCESS_TOKEN env \<noteq> [] \<and>
    encodeURIComponent env (email_of env parsed) = Inr encoded \<and>
    fetch env (update_request env (name_of parsed) (email_of env parsed) encoded) =
      Inr patchResponse \<and>
    status patchResponse = 404 \<and>
    fetch env (create_request env (name_of parsed) (email_of env parsed)) =
      Inr createResponse \<and>
    ok createResponse"
  then have p: "parses_to env event st parsed" and n: "parsed \<noteq> JNull"
    by (simp_all add: parses_to_def)
  have "result (handler_parsed env event ip st parsed) =
           Returned (json 200 success_with_coupon []) \<and>
         crm_calls (handler_parsed env event ip st parsed) =
           [update_request env (name_of parsed) (email_of env parsed) encoded,
            create_request env (name_of parsed) (email_of env parsed)]" for ip st
    using handler_parsed_created(1) [OF n, of env encoded patchResponse createResponse] h
    by blast
  then show "result (handler env event st) = Returned (json 200 success_with_coupon [])"
    and "crm_calls (handler env event st) =
        [update_request env (name_of parsed) (email_of env parsed) encoded,
         create_request env (name_of parsed) (email_of env parsed)]"
    unfolding handler_parses_to [OF p] by simp_all
next
  assume h: "parses_to_server env req st parsed \<and> valid_lead parsed \<and> HUBSPOT_ACCESS_TOKEN env \<noteq> [] \<and>
    encodeURIComponent env (email_of env parsed) = Inr encoded \<and>
    fetch env (update_request env (name_of parsed) (email_of env parsed) encoded) =
      Inr patchResponse \<and>
    status patchResponse = 404 \<and>
    fetch env (create_request env (name_of parsed) (email_of env parsed)) =
      Inr createResponse \<and>
    ok createResponse"
  then have p: "parses_to_server env req st parsed" and n: "parsed \<noteq> JNull"
    by (simp_all add: parses_to_server_def)
  have "result (handlePromoLead_hubspot_parsed env req ip st parsed) =
           Returned (sendJson 200 success_with_coupon []) \<and>
         crm_calls (handlePromoLead_hubspot_parsed env req ip st parsed) =
           [update_request env (name_of parsed) (email_of env parsed) encoded,
            create_request env (name_of parsed) (email_of env parsed)]" for ip st
    using handler_parsed_created(2) [OF n, of env encoded patchResponse createResponse] h
    by blast
  then show "result (handlePromoLead_hubspot env req st) =
        Returned (sendJson 200 success_with_coupon [])"
    and "crm_calls (handlePromoLead_hubspot env req st) =
        [update_request env (name_of parsed) (email_of env parsed) encoded,
         create_request env (name_of parsed) (email_of env parsed)]"
    unfolding handlePromoLead_hubspot_parses_to [OF p] by simp_all
qed

text \<open>
  Claim C3 (amended). For a valid lead, with the access token configured and an email that
  \<^verbatim>\<open>encodeURIComponent\<close> accepts (one without a lone surrogate), when the CRM answers the
  partial update for that email with a status that is neither 2xx nor 404, the handler
  returns 502 with the generic message and makes exactly one CRM request, that \<^verbatim>\<open>PATCH\<close>.
  It logs the upstream error with \<^verbatim>\<open>console.error\<close>: the status and, after it, the status
  text when the answer has no body, the body when it is not JSON, and the \<^verbatim>\<open>message\<close> or
  else the \<^verbatim>\<open>error\<close> of a JSON body when that is a non-empty string. The response body
  holds none of it.
\<close>

theorem failed_update_is_502:
  "(parses_to env event st parsed \<and> valid_lead parsed \<and> HUBSPOT_ACCESS_TOKEN env \<noteq> [] \<and>
    encodeURIComponent env (email_of env parsed) = Inr encoded \<and>
    fetch env (update_request env (name_of parsed) (email_of env parsed) encoded) =
      Inr patchResponse \<and>
    \<not> ok patchResponse \<and> status patchResponse \<noteq> 404 \<longrightarrow>
      result (handler env event st) =
        Returned (json 502
          (failure (js ''Unable to save your lead right now. Please try again.'')) []) \<and>
      crm_calls (handler env event st) =
        [update_request env (name_of parsed) (email_of env parsed) encoded] \<and>
      last (console (handler env event st)) =
        (ERROR, js ''[promo-lead] HubSpot sync error: %s'',
         [Str (hubspot_failure env (js ''update'') patchResponse)])) \<and>
   (parses_to_server env req st parsed \<and> valid_lead parsed \<and> HUBSPOT_ACCESS_TOKEN env \<noteq> [] \<and>
    encodeURIComponent env (email_of env parsed) = Inr encoded \<and>
    fetch env (update_request env (name_of parsed) (email_of env parsed) encoded) =
      Inr patchResponse \<and>
    \<not> ok patchResponse \<and> status patchResponse \<noteq> 404 \<longrightarrow>
      result (handlePromoLead_hubspot env req st) =
        Returned (sendJson 502
          (failure (js ''Unable to save your lead right now. Please try again.'')) []) \<and>
      crm_calls (handlePromoLead_hubspot env req st) =
        [update_request env (name_of parsed) (email_of env parsed) encoded] \<and>
      last (console (handlePromoLead_hubspot env req st)) =
        (ERROR, js ''[promo-lead] HubSpot sync error: %s'',
         [Str (hubspot_failure env (js ''update'') patchResponse)])) \<and>
   (response_text patchResponse = Inr [] \<longrightarrow>
      hubspot_failure env (js ''update'') patchResponse =
        js ''HubSpot update failed ('' @ decimal (status patchResponse) @ js ''): '' @
        trim (decimal (status patchResponse) @ js '' '' @ statusText patchResponse)) \<and>
   (response_text patchResponse = Inr raw \<and> raw \<noteq> [] \<and> JSON_parse env raw = None \<longrightarrow>
      hubspot_failure env (js ''update'') patchResponse =
        js ''HubSpot update failed ('' @ decimal (status patchResponse) @ js ''): '' @ raw) \<and>
   (response_text patchResponse = Inr raw \<and> raw \<noteq> [] \<and> JSON_parse env raw = Some answer \<and>
    property answer (js ''message'') = Some (JStr m) \<and> m \<noteq> [] \<longrightarrow>
      hubspot_failure env (js ''update'') patchResponse =
        js ''HubSpot update failed ('' @ decimal (status patchResponse) @ js ''): '' @ m) \<and>
   (response_text patchResponse = Inr raw \<and> raw \<noteq> [] \<and> JSON_parse env raw = Some answer \<and>
    truthy_prop answer (js ''message'') = None \<and>
    property answer (js ''error'') = Some (JStr m) \<and> m \<noteq> [] \<longrightarrow>
      hubspot_failure env (js ''update'') patchResponse =
        js ''HubSpot update failed ('' @ decimal (status patchResponse) @ js ''): '' @ m)"
proof (intro conjI impI)
  assume h: "parses_to env event st parsed \<and> valid_lead parsed \<and> HUBSPOT_ACCESS_TOKEN env \<noteq> [] \<and>
    encodeURIComponent env (email_of env parsed) = Inr encoded \<and>
    fetch env (update_request env (name_of parsed) (email_of env parsed) encoded) =
      Inr patchResponse \<and>
    \<not> ok patchResponse \<and> status patchResponse \<noteq> 404"
  then have p: "parses_to env event st parsed" and n: "parsed \<noteq> JNull"
    by (simp_all add: parses_to_def)
  have "result (handler_parsed env event ip st parsed) =
        Returned (json 502
          (failure (js ''Unable to save your lead right now. Please try again.'')) []) \<and>
      crm_calls (handler_parsed env event ip st parsed) =
        [update_request env (name_of parsed) (email_of env parsed) encoded] \<and>
      last (console (handler_parsed env event ip st parsed)) =
        (ERROR, js ''[promo-lead] HubSpot sync error: %s'',
         [Str (hubspot_failure env (js ''update'') patchResponse)])"
    for ip st
    using handler_parsed_update_failed(1) [OF n, of env encoded patchResponse] h
    by blast
  then show "result (handler env event st) =
        Returned (json 502
          (failure (js ''Unable to save your lead right now. Please try again.'')) [])"
    and "crm_calls (handler env event st) =
        [update_request env (name_of parsed) (email_of env parsed) encoded]"
    and "last (console (handler env event st)) =
        (ERROR, js ''[promo-lead] HubSpot sync error: %s'',
         [Str (hubspot_failure env (js ''update'') patchResponse)])"
    unfolding handler_parses_to [OF p] by simp_all
next
  assume h: "parses_to_server env req st parsed \<and> valid_lead parsed \<and> HUBSPOT_ACCESS_TOKEN env \<noteq> [] \<and>
    encodeURIComponent env (email_of env parsed) = Inr encoded \<and>
    fetch env (update_request env (name_of parsed) (email_of env parsed) encoded) =
      Inr patchResponse \<and>
    \<not> ok patchResponse \<and> status patchResponse \<noteq> 404"
  then have p: "parses_to_server env req st parsed" and n: "parsed \<noteq> JNull"
    by (simp_all add: parses_to_server_def)
  have "result (handlePromoLead_hubspot_parsed env req ip st parsed) =
        Returned (sendJson 502
          (failure (js ''Unable to save your lead right now. Please try again.'')) []) \<and>
      crm_calls (handlePromoLead_hubspot_parsed env req ip st parsed) =
        [update_request env (name_of parsed) (email_of env parsed) encoded] \<and>
      last (console (handlePromoLead_hubspot_parsed env req ip st parsed)) =
        (ERROR, js ''[promo-lead] HubSpot sync error: %s'',
         [Str (hubspot_failure env (js ''update'') patchResponse)])"
    for ip st
    using handler_parsed_update_failed(2) [OF n, of env encoded patchResponse] h
    by blast
  then show "result (handlePromoLead_hubspot env req st) =
        Returned (sendJson 502
          (failure (js ''Unable to save your lead right now. Please try again.'')) [])"
    and "crm_calls (handlePromoLead_hubspot env req st) =
        [update_request env (name_of parsed) (email_of env parsed) encoded]"
    and "last (console (handlePromoLead_hubspot env req st)) =
        (ERROR, js ''[promo-lead] HubSpot sync error: %s'',
         [Str (hubspot_failure env (js ''update'') patchResponse)])"
    unfolding handlePromoLead_hubspot_parses_to [OF p] by simp_all
next
  assume "response_text patchResponse = Inr []"
  then show "hubspot_failure env (js ''update'') patchResponse =
        js ''HubSpot update failed ('' @ decimal (status patchResponse) @ js ''): '' @
        trim (decimal (status patchResponse) @ js '' '' @ statusText patchResponse)"
    by (simp add: hubspot_failure_empty js_def)
next
  assume "response_text patchResponse = Inr raw \<and> raw \<noteq> [] \<and> JSON_parse env raw = None"
  then show "hubspot_failure env (js ''update'') patchResponse =
        js ''HubSpot update failed ('' @ decimal (status patchResponse) @ js ''): '' @ raw"
    by (simp add: hubspot_failure_raw js_def)
next
  assume "response_text patchResponse = Inr raw \<and> raw \<noteq> [] \<and> JSON_parse env raw = Some answer \<and>
    property answer (js ''message'') = Some (JStr m) \<and> m \<noteq> []"
  then show "hubspot_failure env (js ''update'') patchResponse =
        js ''HubSpot update failed ('' @ decimal (status patchResponse) @ js ''): '' @ m"
    by (simp add: hubspot_failure_message [of _ raw _ answer m] js_def)
next
  assume "response_text patchResponse = Inr raw \<and> raw \<noteq> [] \<and> JSON_parse env raw = Some answer \<and>
    truthy_prop answer (js ''message'') = None \<and>
    property answer (js ''error'') = Some (JStr m) \<and> m \<noteq> []"
  then show "hubspot_failure env (js ''update'') patchResponse =
        js ''HubSpot update failed ('' @ decimal (status patchResponse) @ js ''): '' @ m"
    by (simp add: hubspot_failure_error [of _ raw _ answer m] js_def)
qed

subsection \<open>The examples\<close>

lemma example_token:
  "HUBSPOT_ACCESS_TOKEN (example_env crm) \<noteq> []"
  "HUBSPOT_ACCESS_TOKEN ((example_env crm)\<lparr>process_env := Map.empty\<rparr>) = []"
  by (simp_all add: HUBSPOT_ACCESS_TOKEN_def example_env_def trim_def js_def isWhiteSpace_def)

lemma example_base:
  "HUBSPOT_API_BASE (example_env crm) = js ''https://api.hubapi.com''"
  by (simp add: HUBSPOT_API_BASE_def example_env_def js_def)

lemma example_without_token:
  "parses_to ((example_env crm)\<lparr>process_env := Map.empty\<rparr>) event st parsed =
     parses_to (example_env crm) event st parsed"
  by (simp add: parses_to_def passes_checks_def rawBody_of_def parsed_body_def example_env_def
      Let_def)

lemma surrogate_body:
  "byteLength surrogate_email_body \<le> MAX_BODY_SIZE"
  "parsed_body (example_env crm) surrogate_email_body =
     Some (JObj [(js ''name'', JStr (js ''John Smith'')),
                 (js ''email'', JStr (0xD800 # js ''@b.co''))])"
  by (simp_all add: parsed_body_def example_env_def example_parse_def surrogate_email_body_def
      lead_body_def bad_email_body_def blank_company_body_def bot_body_def js_def
      MAX_BODY_SIZE_def)

lemma surrogate_email_matches: "emailRegex_test (0xD800 # js ''@b.co'')"
  by (simp add: emailRegex_test_def emailRegex_def one_or_more_def two_or_more_def lit_def
      not_space_at_def isWhiteSpace_def js_def)

lemma example_valid_lead:
  "valid_lead (JObj [(js ''name'', JStr (js ''John Smith'')), (js ''email'', JStr (js ''a@b.co''))])"
  "valid_lead (JObj [(js ''name'', JStr (js ''John Smith'')), (js ''email'', JStr (js ''a@b.co'')),
                     (js ''company'', JStr (js '' ''))])"
  by (simp_all add: valid_lead_def string_or_def property_def emailRegex_examples)
     (simp_all add: js_def)

lemma example_email:
  "string_or (JObj [(js ''name'', JStr (js ''John Smith'')), (js ''email'', JStr (js ''a@b.co''))])
     (js ''email'') [] = js ''a@b.co''"
  "string_or (JObj [(js ''name'', JStr (js ''John Smith'')), (js ''email'', JStr (js ''a@b.co'')),
                    (js ''company'', JStr (js '' ''))]) (js ''email'') [] = js ''a@b.co''"
  by (simp_all add: string_or_def property_def)

lemma example_valid_surrogate:
  "valid_lead (JObj [(js ''name'', JStr (js ''John Smith'')),
                     (js ''email'', JStr (0xD800 # js ''@b.co''))])"
  "trim (0xD800 # js ''@b.co'') = 0xD800 # js ''@b.co''"
proof -
  show t: "trim (0xD800 # js ''@b.co'') = 0xD800 # js ''@b.co''"
    by (simp add: trim_def js_def isWhiteSpace_def)
  show "valid_lead (JObj [(js ''name'', JStr (js ''John Smith'')),
                     (js ''email'', JStr (0xD800 # js ''@b.co''))])"
    by (simp add: valid_lead_def string_or_def property_def t surrogate_email_matches)
       (simp add: js_def)
qed

lemma example_lead_fields:
  "name_of (JObj [(js ''name'', JStr (js ''John Smith'')), (js ''email'', JStr (js ''a@b.co''))]) =
     js ''John Smith''"
  "email_of (example_env crm)
     (JObj [(js ''name'', JStr (js ''John Smith'')), (js ''email'', JStr (js ''a@b.co''))]) =
     js ''a@b.co''"
  "name_of (JObj [(js ''name'', JStr (js ''John Smith'')), (js ''email'', JStr (js ''a@b.co'')),
                  (js ''company'', JStr (js '' ''))]) = js ''John Smith''"
  "email_of (example_env crm)
     (JObj [(js ''name'', JStr (js ''John Smith'')), (js ''email'', JStr (js ''a@b.co'')),
            (js ''company'', JStr (js '' ''))]) = js ''a@b.co''"
  "email_of (example_env crm)
     (JObj [(js ''name'', JStr (js ''John Smith'')),
            (js ''email'', JStr (0xD800 # js ''@b.co''))]) = 0xD800 # js ''@b.co''"
  "email_of ((example_env crm)\<lparr>process_env := Map.empty\<rparr>) parsed = email_of (example_env crm) parsed"
  by (simp_all add: name_of_def email_of_def string_or_def property_def example_env_def
      example_valid_surrogate(2))

lemma example_encoded:
  "encodeURIComponent (example_env crm) (js ''a@b.co'') = Inr (js ''a%40b.co'')"
  "encodeURIComponent (example_env crm) (0xD800 # js ''@b.co'') = Inl (js ''URI malformed'')"
  by (simp_all add: example_env_def example_encode_def js_def)

lemma example_answers:
  "fetch (example_env crm_404_then_201) (update_request e n a c) =
     Inr \<lparr>status = 404, statusText = js ''Not Found'', response_text = Inr []\<rparr>"
  "fetch (example_env crm_404_then_201) (create_request e n a) =
     Inr \<lparr>status = 201, statusText = js ''Created'', response_text = Inr []\<rparr>"
  "fetch (example_env crm_500) (update_request e n a c) =
     Inr \<lparr>status = 500, statusText = js ''Internal Server Error'',
          response_text = Inr (js ''upstream exploded'')\<rparr>"
  by (simp_all add: example_env_def crm_404_then_201_def crm_500_def update_request_def
      create_request_def crm_call_def)

lemma example_split_name: "splitName (js ''John Smith'') = (js ''John'', js ''Smith'')"
  by (simp add: splitName_def trim_def isWhiteSpace_def js_def)

lemma example_requests:
  "update_request (example_env crm) (js ''John Smith'') (js ''a@b.co'') (js ''a%40b.co'') =
     \<lparr>url = js ''https://api.hubapi.com/crm/v3/objects/contacts/a%40b.co?idProperty=email'',
      http_method = js ''PATCH'',
      request_headers = [(js ''Authorization'', js ''Bearer pat-example''),
                         (js ''Content-Type'', js ''application/json'')],
      request_body =
        JObj [(js ''properties'',
               JObj [(js ''email'', JStr (js ''a@b.co'')), (js ''firstname'', JStr (js ''John'')),
                     (js ''lastname'', JStr (js ''Smith''))])]\<rparr>"
  "create_request (example_env crm) (js ''John Smith'') (js ''a@b.co'') =
     \<lparr>url = js ''https://api.hubapi.com/crm/v3/objects/contacts'',
      http_method = js ''POST'',
      request_headers = [(js ''Authorization'', js ''Bearer pat-example''),
                         (js ''Content-Type'', js ''application/json'')],
      request_body =
        JObj [(js ''properties'',
               JObj [(js ''email'', JStr (js ''a@b.co'')), (js ''firstname'', JStr (js ''John'')),
                     (js ''lastname'', JStr (js ''Smith''))])]\<rparr>"
  by (simp_all add: update_request_def create_request_def crm_call_def contact_properties_def
      example_split_name example_base)
     (simp_all add: HUBSPOT_ACCESS_TOKEN_def example_env_def trim_def isWhiteSpace_def js_def)

theorem created_after_not_found_witness:
  "result (handler (example_env crm_404_then_201) (post_event lead_body) Map.empty) =
     Returned (json 200 success_with_coupon []) \<and>
   crm_calls (handler (example_env crm_404_then_201) (post_event lead_body) Map.empty) =
     [\<lparr>url = js ''https://api.hubapi.com/crm/v3/objects/contacts/a%40b.co?idProperty=email'',
       http_method = js ''PATCH'',
       request_headers = [(js ''Authorization'', js ''Bearer pat-example''),
                          (js ''Content-Type'', js ''application/json'')],
       request_body =
         JObj [(js ''properties'',
                JObj [(js ''email'', JStr (js ''a@b.co'')), (js ''firstname'', JStr (js ''John'')),
                      (js ''lastname'', JStr (js ''Smith''))])]\<rparr>,
      \<lparr>url = js ''https://api.hubapi.com/crm/v3/objects/contacts'',
       http_method = js ''POST'',
       request_headers = [(js ''Authorization'', js ''Bearer pat-example''),
                          (js ''Content-Type'', js ''application/json'')],
       request_body =
         JObj [(js ''properties'',
                JObj [(js ''email'', JStr (js ''a@b.co'')), (js ''firstname'', JStr (js ''John'')),
                      (js ''lastname'', JStr (js ''Smith''))])]\<rparr>]"
proof -
  let ?parsed = "JObj [(js ''name'', JStr (js ''John Smith'')), (js ''email'', JStr (js ''a@b.co''))]"
  have "parses_to (example_env crm_404_then_201) (post_event lead_body) Map.empty ?parsed"
    by (rule example_parses_to) (simp_all add: example_bodies_small example_parsed_body)
  then have "result (handler (example_env crm_404_then_201) (post_event lead_body) Map.empty) =
       Returned (json 200 success_with_coupon []) \<and>
     crm_calls (handler (example_env crm_404_then_201) (post_event lead_body) Map.empty) =
       [update_request (example_env crm_404_then_201) (js ''John Smith'') (js ''a@b.co'')
          (js ''a%40b.co''),
        create_request (example_env crm_404_then_201) (js ''John Smith'') (js ''a@b.co'')]"
    using created_after_not_found [where env = "example_env crm_404_then_201"
        and event = "post_event lead_body" and st = Map.empty and parsed = ?parsed
        and encoded = "js ''a%40b.co''"
        and patchResponse =
          "\<lparr>status = 404, statusText = js ''Not Found'', response_text = Inr []\<rparr>"
        and createResponse =
          "\<lparr>status = 201, statusText = js ''Created'', response_text = Inr []\<rparr>"]
      example_valid_lead(1)
    by (simp add: example_token example_lead_fields example_encoded example_answers ok_def)
  then show ?thesis
    by (simp add: example_requests)
qed

theorem failed_update_is_502_witness:
  "result (handler (example_env crm_500) (post_event lead_body) Map.empty) =
     Returned (json 502
       (failure (js ''Unable to save your lead right now. Please try again.'')) []) \<and>
   map url (crm_calls (handler (example_env crm_500) (post_event lead_body) Map.empty)) =
     [js ''https://api.hubapi.com/crm/v3/objects/contacts/a%40b.co?idProperty=email''] \<and>
   map http_method (crm_calls (handler (example_env crm_500) (post_event lead_body) Map.empty)) =
     [js ''PATCH''] \<and>
   last (console (handler (example_env crm_500) (post_event lead_body) Map.empty)) =
     (ERROR, js ''[promo-lead] HubSpot sync error: %s'',
      [Str (js ''HubSpot update failed (500): upstream exploded'')])"
proof -
  let ?parsed = "JObj [(js ''name'', JStr (js ''John Smith'')), (js ''email'', JStr (js ''a@b.co''))]"
  let ?answer = "\<lparr>status = 500, statusText = js ''Internal Server Error'',
                  response_text = Inr (js ''upstream exploded'')\<rparr>"
  have p: "parses_to (example_env crm_500) (post_event lead_body) Map.empty ?parsed"
    by (rule example_parses_to) (simp_all add: example_bodies_small example_parsed_body)
  have unparsed: "JSON_parse (example_env crm_500) (js ''upstream exploded'') = None"
    by (simp add: example_env_def example_parse_def surrogate_email_body_def
        lead_body_def bad_email_body_def blank_company_body_def bot_body_def js_def)
  have msg: "js ''HubSpot update failed ('' @ decimal 500 @ js ''): '' @ js ''upstream exploded'' =
      js ''HubSpot update failed (500): upstream exploded''"
    by (simp add: js_def)
  have "result (handler (example_env crm_500) (post_event lead_body) Map.empty) =
       Returned (json 502
         (failure (js ''Unable to save your lead right now. Please try again.'')) []) \<and>
     crm_calls (handler (example_env crm_500) (post_event lead_body) Map.empty) =
       [update_request (example_env crm_500) (js ''John Smith'') (js ''a@b.co'')
          (js ''a%40b.co'')] \<and>
     last (console (handler (example_env crm_500) (post_event lead_body) Map.empty)) =
       (ERROR, js ''[promo-lead] HubSpot sync error: %s'',
        [Str (hubspot_failure (example_env crm_500) (js ''update'') ?answer)]) \<and>
     hubspot_failure (example_env crm_500) (js ''update'') ?answer =
       js ''HubSpot update failed ('' @ decimal 500 @ js ''): '' @ js ''upstream exploded''"
    using failed_update_is_502 [where env = "example_env crm_500"
        and event = "post_event lead_body" and st = Map.empty and parsed = ?parsed
        and encoded = "js ''a%40b.co''" and patchResponse = ?answer
        and raw = "js ''upstream exploded''"]
      example_valid_lead(1) p unparsed
    by (simp add: example_token example_lead_fields example_encoded example_answers ok_def)
  then show ?thesis
    unfolding msg by (simp add: example_requests)
qed

text \<open>
  Claim C2 as stated fails. The email of the first lead starts with a lone surrogate: it
  matches the pattern, \<^verbatim>\<open>encodeURIComponent\<close> throws before any request, and the handler
  answers 502 without a CRM request, although the CRM would answer 404 and then 201. For
  the second lead the access token is not configured: the handler answers with the coupon
  and makes no CRM request.
\<close>

theorem lone_surrogate_not_forwarded_counterexample:
  "example_parse surrogate_email_body =
     Some (JObj [(js ''name'', JStr (js ''John Smith'')),
                 (js ''email'', JStr (0xD800 # js ''@b.co''))]) \<and>
   emailRegex_test (0xD800 # js ''@b.co'') \<and>
   result (handler (example_env crm_404_then_201) (post_event surrogate_email_body) Map.empty) =
     Returned (json 502
       (failure (js ''Unable to save your lead right now. Please try again.'')) []) \<and>
   crm_calls (handler (example_env crm_404_then_201) (post_event surrogate_email_body)
     Map.empty) = [] \<and>
   result (handler ((example_env crm_404_then_201)\<lparr>process_env := Map.empty\<rparr>)
     (post_event lead_body) Map.empty) = Returned (json 200 success_with_coupon []) \<and>
   crm_calls (handler ((example_env crm_404_then_201)\<lparr>process_env := Map.empty\<rparr>)
     (post_event lead_body) Map.empty) = []"
proof -
  let ?surrogate = "JObj [(js ''name'', JStr (js ''John Smith'')),
                          (js ''email'', JStr (0xD800 # js ''@b.co''))]"
  let ?parsed = "JObj [(js ''name'', JStr (js ''John Smith'')), (js ''email'', JStr (js ''a@b.co''))]"
  have p: "parses_to (example_env crm_404_then_201) (post_event surrogate_email_body) Map.empty
      ?surrogate"
    by (rule example_parses_to) (simp_all add: surrogate_body)
  have q: "parses_to ((example_env crm_404_then_201)\<lparr>process_env := Map.empty\<rparr>)
      (post_event lead_body) Map.empty ?parsed"
    unfolding example_without_token
    by (rule example_parses_to) (simp_all add: example_bodies_small example_parsed_body)
  have "example_parse surrogate_email_body = Some ?surrogate"
    using surrogate_body(2) [of crm_500]
    by (simp add: parsed_body_def example_env_def split: if_splits)
  then show ?thesis
    unfolding handler_parses_to [OF p] handler_parses_to [OF q]
    using handler_parsed_not_called(2) [OF _ example_valid_surrogate(1),
        of "example_env crm_404_then_201" "js ''URI malformed''"]
      handler_parsed_not_called(1) [OF _ example_valid_lead(1),
        of "(example_env crm_404_then_201)\<lparr>process_env := Map.empty\<rparr>"]
    by (simp add: example_token example_lead_fields example_encoded surrogate_email_matches)
qed

text \<open>
  Claim C3 as stated fails. With the CRM that answers every update with 500: for the lead
  whose email starts with a lone surrogate the handler answers 502 without a CRM request,
  not after exactly one; with the access token not configured it answers with the coupon.
\<close>

theorem lone_surrogate_no_update_counterexample:
  "example_parse surrogate_email_body =
     Some (JObj [(js ''name'', JStr (js ''John Smith'')),
                 (js ''email'', JStr (0xD800 # js ''@b.co''))]) \<and>
   emailRegex_test (0xD800 # js ''@b.co'') \<and>
   result (handler (example_env crm_500) (post_event surrogate_email_body) Map.empty) =
     Returned (json 502
       (failure (js ''Unable to save your lead right now. Please try again.'')) []) \<and>
   crm_calls (handler (example_env crm_500) (post_event surrogate_email_body) Map.empty) = [] \<and>
   result (handler ((example_env crm_500)\<lparr>process_env := Map.empty\<rparr>)
     (post_event lead_body) Map.empty) = Returned (json 200 success_with_coupon []) \<and>
   crm_calls (handler ((example_env crm_500)\<lparr>process_env := Map.empty\<rparr>)
     (post_event lead_body) Map.empty) = []"
proof -
  let ?surrogate = "JObj [(js ''name'', JStr (js ''John Smith'')),
                          (js ''email'', JStr (0xD800 # js ''@b.co''))]"
  let ?parsed = "JObj [(js ''name'', JStr (js ''John Smith'')), (js ''email'', JStr (js ''a@b.co''))]"
  have p: "parses_to (example_env crm_500) (post_event surrogate_email_body) Map.empty ?surrogate"
    by (rule example_parses_to) (simp_all add: surrogate_body)
  have q: "parses_to ((example_env crm_500)\<lparr>process_env := Map.empty\<rparr>)
      (post_event lead_body) Map.empty ?parsed"
    unfolding example_without_token
    by (rule example_parses_to) (simp_all add: example_bodies_small example_parsed_body)
  have "example_parse surrogate_email_body = Some ?surrogate"
    using surrogate_body(2) [of crm_500]
    by (simp add: parsed_body_def example_env_def split: if_splits)
  then show ?thesis
    unfolding handler_parses_to [OF p] handler_parses_to [OF q]
    using handler_parsed_not_called(2) [OF _ example_valid_surrogate(1),
        of "example_env crm_500" "js ''URI malformed''"]
      handler_parsed_not_called(1) [OF _ example_valid_lead(1),
        of "(example_env crm_500)\<lparr>process_env := Map.empty\<rparr>"]
    by (simp add: example_token example_lead_fields example_encoded surrogate_email_matches)
qed

text \<open>
  Claim C4 as stated fails: a honeypot field that holds one space is not empty, yet it is
  trimmed before the test, and the lead is validated, forwarded and answered with the
  coupon.
\<close>
theorem blank_honeypot_counterexample:
  "example_parse blank_company_body =
     Some (JObj [(js ''name'', JStr (js ''John Smith'')), (js ''email'', JStr (js ''a@b.co'')),
                 (js ''company'', JStr (js '' ''))]) \<and>
   js '' '' \<noteq> [] \<and>
   result (handler (example_env crm_404_then_201) (post_event blank_company_body) Map.empty) =
     Returned (json 200 success_with_coupon []) \<and>
   map http_method
     (crm_calls (handler (example_env crm_404_then_201) (post_event blank_company_body)
        Map.empty)) = [js ''PATCH'', js ''POST'']"
proof -
  let ?parsed = "JObj [(js ''name'', JStr (js ''John Smith'')), (js ''email'', JStr (js ''a@b.co'')),
                       (js ''company'', JStr (js '' ''))]"
  have p: "parses_to (example_env crm_404_then_201) (post_event blank_company_body) Map.empty
      ?parsed"
    by (rule example_parses_to) (simp_all add: example_bodies_small example_parsed_body)
  have "example_parse blank_company_body = Some ?parsed"
    using example_parsed_body(2) [of crm_500]
    by (simp add: parsed_body_def example_env_def example_bodies_differ)
  moreover have "js '' '' \<noteq> []"
    by simp
  moreover have "result (handler_parsed (example_env crm_404_then_201)
        (post_event blank_company_body) ip st ?parsed) =
      Returned (json 200 success_with_coupon []) \<and>
    crm_calls (handler_parsed (example_env crm_404_then_201)
        (post_event blank_company_body) ip st ?parsed) =
      [update_request (example_env crm_404_then_201) (js ''John Smith'') (js ''a@b.co'')
         (js ''a%40b.co''),
       create_request (example_env crm_404_then_201) (js ''John Smith'') (js ''a@b.co'')]"
    for ip st
    using handler_parsed_created(1) [OF _ example_valid_lead(2),
        of "example_env crm_404_then_201" "js ''a%40b.co''"
        "\<lparr>status = 404, statusText = js ''Not Found'', response_text = Inr []\<rparr>"
        "\<lparr>status = 201, statusText = js ''Created'', response_text = Inr []\<rparr>"]
    by (simp add: example_token example_lead_fields example_encoded example_answers ok_def)
  ultimately show ?thesis
    unfolding handler_parses_to [OF p]
    by (simp add: update_request_def create_request_def crm_call_def)
qed

end
